theory Spec2Isabelle
  imports Complex_Main "HOL-Library.Multiset"
begin

section \<open>JavaScript values read by the viewer\<close>

text \<open>
  The viewer (docs/assets/js/viewer.js) works on data parsed from JSON. A field of a
  Record or of a ComparisonRow is a scalar that may be missing (\<open>Undefined\<close>) or
  \<open>null\<close>. Numbers are the finite numbers JSON can carry, kept as exact rationals:
  JSON has no NaN, the two zeros are one value, and a literal that overflows to
  Infinity is outside the model. On these values \<open>===\<close> is HOL equality.
  Strings are lists of characters.
\<close>

datatype jsval = Undefined | Null | Bool bool | Num rat | Str string

text \<open>
  What the JavaScript runtime provides and the repository does not define is taken as a
  parameter: the text of a number (\<open>String(n)\<close>), \<open>toExponential\<close>,
  \<open>toFixed\<close>, \<open>toLowerCase\<close> and \<open>trim\<close>.
\<close>

record builtins =
  numberToString :: "rat \<Rightarrow> string"
  toExponential :: "rat \<Rightarrow> nat \<Rightarrow> string"
  toFixed :: "rat \<Rightarrow> nat \<Rightarrow> string"
  toLowerCase :: "string \<Rightarrow> string"
  trim :: "string \<Rightarrow> string"

definition nullish :: "jsval \<Rightarrow> bool" where
  "nullish v = (v = Null \<or> v = Undefined)"

text \<open>Truthiness, as \<open>!v\<close>, \<open>v || d\<close> and \<open>if (v)\<close> see it.\<close>

fun truthy :: "jsval \<Rightarrow> bool" where
  "truthy Undefined = False"
| "truthy Null = False"
| "truthy (Bool b) = b"
| "truthy (Num n) = (n \<noteq> 0)"
| "truthy (Str s) = (s \<noteq> [])"

text \<open>\<open>a || b\<close> and \<open>a ?? b\<close>.\<close>

definition or_else :: "jsval \<Rightarrow> jsval \<Rightarrow> jsval" where
  "or_else a b = (if truthy a then a else b)"

definition nullish_else :: "jsval \<Rightarrow> jsval \<Rightarrow> jsval" where
  "nullish_else a b = (if nullish a then b else a)"

text \<open>\<open>String(v)\<close>.\<close>

fun toStr :: "builtins \<Rightarrow> jsval \<Rightarrow> string" where
  "toStr B Undefined = ''undefined''"
| "toStr B Null = ''null''"
| "toStr B (Bool b) = (if b then ''true'' else ''false'')"
| "toStr B (Num n) = numberToString B n"
| "toStr B (Str s) = s"

text \<open>
  \<open>Array.prototype.join\<close>: an element that is null or undefined gives the empty
  string, any other element its \<open>String\<close>; the separator stands between
  consecutive elements.
\<close>

definition joinElem :: "builtins \<Rightarrow> jsval \<Rightarrow> string" where
  "joinElem B v = (if nullish v then [] else toStr B v)"

fun joinStrings :: "string \<Rightarrow> string list \<Rightarrow> string" where
  "joinStrings sep [] = []"
| "joinStrings sep [x] = x"
| "joinStrings sep (x # y # ys) = x @ sep @ joinStrings sep (y # ys)"

definition join :: "builtins \<Rightarrow> string \<Rightarrow> jsval list \<Rightarrow> string" where
  "join B sep xs = joinStrings sep (map (joinElem B) xs)"

text \<open>\<open>hay.includes(q)\<close>: \<open>q\<close> occurs in \<open>hay\<close> as a contiguous run.\<close>

fun startsWith :: "string \<Rightarrow> string \<Rightarrow> bool" where
  "startsWith s [] = True"
| "startsWith [] (c # q) = False"
| "startsWith (d # s) (c # q) = (d = c \<and> startsWith s q)"

fun includes_str :: "string \<Rightarrow> string \<Rightarrow> bool" where
  "includes_str [] q = (q = [])"
| "includes_str (c # s) q = (startsWith (c # s) q \<or> includes_str s q)"

section \<open>The data model of the viewer\<close>

text \<open>
  A Record as the viewer reads it. Every scalar field may be missing or null, which the
  code guards with \<open>||\<close> and \<open>??\<close>; \<open>provenance\<close> and \<open>constraints\<close> are
  objects or missing (read through \<open>?.\<close>); \<open>citations\<close>, \<open>hard_fail\<close> and
  \<open>soft_warn\<close> are arrays of strings or missing.
\<close>

record provenance =
  page :: jsval
  snippet :: jsval

record constraints =
  hard_fail :: "string list option"
  soft_warn :: "string list option"

record rec =
  material :: jsval
  property :: jsval
  category :: jsval
  value_min :: jsval
  value_max :: jsval
  unit_original :: jsval
  value_si_min :: jsval
  value_si_max :: jsval
  unit_si :: jsval
  provenance :: "provenance option"
  citations :: "string list option"
  origin :: jsval
  confidence :: jsval
  constraints :: "constraints option"
  method_text :: jsval

section \<open>Formatting a Record for display\<close>

text \<open>The en dash (U+2013) of the range template, in UTF-8.\<close>

definition en_dash :: string where
  "en_dash = [CHR 0xE2, CHR 0x80, CHR 0x93]"

text \<open>
  The literal \<open>1e-3\<close> of \<open>fmtValue\<close> is the double nearest to 1/1000, which lies
  just above it; no double lies between the two, so on doubles the comparison with the
  literal and the comparison with 1/1000 agree.
\<close>

definition fmtValue :: "builtins \<Rightarrow> jsval \<Rightarrow> string" where
  "fmtValue B v =
     (if v = Null \<or> v = Undefined \<or> v = Str [] then []
      else case v of
        Num n \<Rightarrow>
          (let av = \<bar>n\<bar> in
           if av \<noteq> 0 \<and> (av \<ge> 10000 \<or> av < 1 / 1000) then toExponential B n 3
           else if av \<ge> 100 then toFixed B n 2
           else if av \<ge> 1 then toFixed B n 3
           else toFixed B n 4)
      | _ \<Rightarrow> toStr B v)"

definition valueDisplay :: "builtins \<Rightarrow> rec \<Rightarrow> string" where
  "valueDisplay B r =
     (let a = value_min r; b = value_max r in
      if a = Null \<or> a = Undefined then []
      else if b = Null \<or> b = Undefined \<or> b = Str [] \<or> b = a then fmtValue B a
      else fmtValue B a @ en_dash @ fmtValue B b)"

text \<open>\<open>rec?.constraints?.hard_fail\<close>.\<close>

definition hardFailOf :: "rec \<Rightarrow> string list option" where
  "hardFailOf r = (case constraints r of None \<Rightarrow> None | Some c \<Rightarrow> hard_fail c)"

definition hardFailDisplay :: "rec \<Rightarrow> string" where
  "hardFailDisplay r =
     (case hardFailOf r of
        None \<Rightarrow> []
      | Some hf \<Rightarrow> if hf = [] then [] else joinStrings ''; '' hf)"

definition getPage :: "rec \<Rightarrow> jsval" where
  "getPage r =
     nullish_else (case provenance r of None \<Rightarrow> Undefined | Some p \<Rightarrow> page p) (Str [])"

text \<open>
  The point-value notion of the data model, in the specification's words: a Record is a
  point value when its \<open>value_max\<close> equals its \<open>value_min\<close> or is null (a missing
  \<open>value_max\<close> counts as null).
\<close>

definition point_value :: "rec \<Rightarrow> bool" where
  "point_value r = (value_max r = value_min r \<or> nullish (value_max r))"

section \<open>Filtering the records\<close>

text \<open>
  The controls the filter reads: the text of the search box, the selected values of the
  origin and category lists, and the hard-fail-only box.
\<close>

record els =
  searchInput :: string
  originSelect :: string
  categorySelect :: string
  hardFailOnly :: bool

text \<open>\<open>rec?.provenance?.snippet\<close>.\<close>

definition snippetOf :: "rec \<Rightarrow> jsval" where
  "snippetOf r = (case provenance r of None \<Rightarrow> Undefined | Some p \<Rightarrow> snippet p)"

text \<open>\<open>rec.citations || []\<close>: an array is truthy, also when empty.\<close>

definition citationsOf :: "rec \<Rightarrow> string list" where
  "citationsOf r = (case citations r of None \<Rightarrow> [] | Some cs \<Rightarrow> cs)"

text \<open>The text the search looks through, before lower-casing.\<close>

definition hay :: "builtins \<Rightarrow> rec \<Rightarrow> string" where
  "hay B r =
     join B '' ''
       [material r, property r, category r, snippetOf r,
        Str (joinStrings '' '' (citationsOf r))]"

definition recordMatchesFilters :: "builtins \<Rightarrow> els \<Rightarrow> rec \<Rightarrow> bool" where
  "recordMatchesFilters B e r =
     (let q = toLowerCase B (trim B (searchInput e));
          origin' = originSelect e;
          cat = categorySelect e
      in
      if origin' \<noteq> ''all'' \<and> or_else (origin r) (Str []) \<noteq> Str origin' then False
      else if cat \<noteq> ''all'' \<and> or_else (category r) (Str []) \<noteq> Str cat then False
      else if hardFailOnly e \<and>
              (case hardFailOf r of None \<Rightarrow> True | Some hf \<Rightarrow> hf = []) then False
      else if q \<noteq> [] \<and> \<not> includes_str (toLowerCase B (hay B r)) q then False
      else True)"

text \<open>One row of the records grid: the index of the Record and its displayed cells.\<close>

record view =
  idx :: nat
  view_material :: jsval
  view_category :: jsval
  view_property :: jsval
  value_display :: string
  view_unit_original :: jsval
  view_page :: jsval
  view_origin :: jsval
  view_confidence :: jsval
  view_hard_fail :: string

definition mkView :: "builtins \<Rightarrow> nat \<Rightarrow> rec \<Rightarrow> view" where
  "mkView B i r =
     \<lparr> idx = i,
       view_material = or_else (material r) (Str []),
       view_category = or_else (category r) (Str []),
       view_property = or_else (property r) (Str []),
       value_display = valueDisplay B r,
       view_unit_original = or_else (unit_original r) (Str []),
       view_page = getPage r,
       view_origin = or_else (origin r) (Str []),
       view_confidence = nullish_else (confidence r) (Str []),
       view_hard_fail = hardFailDisplay r \<rparr>"

text \<open>
  The loop of \<open>buildRecordViews\<close>: \<open>i\<close> runs over the indices of the records,
  a Record that does not match is skipped, a matching one is pushed.
\<close>

function buildRecordViews_loop ::
  "builtins \<Rightarrow> els \<Rightarrow> rec list \<Rightarrow> nat \<Rightarrow> view list \<Rightarrow> view list" where
  "buildRecordViews_loop B e rs i views =
     (if i < length rs then
        (let r = rs ! i in
         if \<not> recordMatchesFilters B e r then buildRecordViews_loop B e rs (i + 1) views
         else buildRecordViews_loop B e rs (i + 1) (views @ [mkView B i r]))
      else views)"
  by pat_completeness auto
termination
  by (relation "measure (\<lambda>(B, e, rs, i, views). length rs - i)") auto

declare buildRecordViews_loop.simps [simp del]

definition buildRecordViews :: "builtins \<Rightarrow> els \<Rightarrow> rec list \<Rightarrow> view list" where
  "buildRecordViews B e rs = buildRecordViews_loop B e rs 0 []"

section \<open>Comparison rows, tables, figures and the loaded document\<close>

text \<open>
  A ComparisonRow is an object read by column name (\<open>r[c]\<close>): a list of bindings,
  the first binding of a name being its value, a name with no binding being undefined.
\<close>

type_synonym cmp_row = "(string \<times> jsval) list"

definition getProp :: "cmp_row \<Rightarrow> string \<Rightarrow> jsval" where
  "getProp r c = (case map_of r c of None \<Rightarrow> Undefined | Some v \<Rightarrow> v)"

record table_region =
  table_id :: jsval
  table_page :: jsval
  header :: "jsval list"
  rows :: "jsval list list"

record figure_image =
  path :: jsval
  image_page :: jsval
  figure_type :: jsval
  caption :: jsval

record figures =
  images :: "figure_image list option"

text \<open>
  A value stored under a top-level name of the parsed document: a scalar, an array (taken
  to hold the elements of the field it is stored under), or the \<open>figures\<close> object.
\<close>

datatype jsfield =
    Scalar jsval
  | RecordArray "rec list"
  | RowArray "cmp_row list"
  | TableArray "table_region list"
  | StringArray "string list"
  | FiguresObject figures

type_synonym json_object = "(string \<times> jsfield) list"

record state =
  data :: "json_object option"
  records :: "rec list"
  comparison :: "cmp_row list"
  tables :: "table_region list"
  state_figures :: "figures option"
  logs :: "string list"
  filteredRecordViews :: "view list"

section \<open>Rendering and loading\<close>

text \<open>
  \<open>sortByKey\<close> reorders an array in place with \<open>Array.prototype.sort\<close> and a
  comparator on the current sort key. The comparator compares two values as numbers when
  both read as numbers and as lower-cased texts otherwise, which is not a consistent order
  on every array, and for such a comparator the language leaves the resulting order to
  the implementation. The order is therefore left open here: the functions below take the
  reordering as the parameter \<open>srt\<close>, and the properties that need it assume only
  that \<open>srt\<close> rearranges its argument.
\<close>

definition rearranges :: "('a list \<Rightarrow> 'a list) \<Rightarrow> bool" where
  "rearranges srt = (\<forall>xs. mset (srt xs) = mset xs)"

text \<open>
  The counting loop of \<open>renderRecordsTable\<close>: \<open>byOrigin\<close> starts as the empty
  object, and each Record adds one under the key \<open>r.origin || 'unclear'\<close> (a property
  key is the \<open>String\<close> of the value). Names inherited from \<open>Object.prototype\<close>
  are not modelled as keys.
\<close>

fun countByOrigin :: "builtins \<Rightarrow> rec list \<Rightarrow> (string \<rightharpoonup> nat) \<Rightarrow> (string \<rightharpoonup> nat)" where
  "countByOrigin B [] byOrigin = byOrigin"
| "countByOrigin B (r # rs) byOrigin =
     (let k = toStr B (or_else (origin r) (Str ''unclear''))
      in countByOrigin B rs
           (byOrigin(k \<mapsto> (case byOrigin k of None \<Rightarrow> 0 | Some n \<Rightarrow> n) + 1)))"

text \<open>\<open>byOrigin[k] || 0\<close>.\<close>

definition countOf :: "(string \<rightharpoonup> nat) \<Rightarrow> string \<Rightarrow> nat" where
  "countOf byOrigin k = (case byOrigin k of None \<Rightarrow> 0 | Some n \<Rightarrow> n)"

text \<open>\<open>state.data?.doc_id\<close>; the document's \<open>doc_id\<close> is a scalar or missing.\<close>

definition docIdOf :: "json_object option \<Rightarrow> jsval" where
  "docIdOf d =
     (case d of
        None \<Rightarrow> Undefined
      | Some obj \<Rightarrow> (case map_of obj ''doc_id'' of Some (Scalar v) \<Rightarrow> v | _ \<Rightarrow> Undefined))"

text \<open>\<open>state.figures?.images?.length || 0\<close>.\<close>

definition figureCount :: "figures option \<Rightarrow> nat" where
  "figureCount f =
     (case f of
        None \<Rightarrow> 0
      | Some g \<Rightarrow> (case images g of None \<Rightarrow> 0 | Some imgs \<Rightarrow> length imgs))"

text \<open>The items that \<open>renderRecordsTable\<close> hands to \<open>setStats\<close>.\<close>

definition statsItems :: "builtins \<Rightarrow> state \<Rightarrow> (string \<times> jsval) list" where
  "statsItems B st =
     (let byOrigin = countByOrigin B (records st) Map.empty in
      [(''doc_id'', nullish_else (docIdOf (data st)) (Str ''(unknown)'')),
       (''records (total)'', Num (of_nat (length (records st)))),
       (''records (filtered)'', Num (of_nat (length (filteredRecordViews st)))),
       (''this_work'', Num (of_nat (countOf byOrigin ''this_work''))),
       (''literature'', Num (of_nat (countOf byOrigin ''literature''))),
       (''mixed'', Num (of_nat (countOf byOrigin ''mixed''))),
       (''unclear'', Num (of_nat (countOf byOrigin ''unclear''))),
       (''tables'', Num (of_nat (length (tables st)))),
       (''figures'', Num (of_nat (figureCount (state_figures st))))])"

text \<open>
  \<open>renderRecordsTable\<close>: the views are rebuilt from the records and the filter
  controls, sorted, and stored in the state; the statistics are computed from the new
  state. The result is the new state and the statistics shown. (The cells written to the
  page repeat the fields of the views and are not modelled.)
\<close>

definition renderRecordsTable ::
  "builtins \<Rightarrow> (view list \<Rightarrow> view list) \<Rightarrow> els \<Rightarrow> state \<Rightarrow> state \<times> (string \<times> jsval) list" where
  "renderRecordsTable B srt e st =
     (let st' = st\<lparr>filteredRecordViews := srt (buildRecordViews B e (records st))\<rparr>
      in (st', statsItems B st'))"

text \<open>The columns of the comparison table, and its body: one list of cell texts a row.\<close>

definition comparisonCols :: "string list" where
  "comparisonCols =
     [''material'', ''property'', ''category'', ''this_work'', ''paper_cited_literature'',
      ''external_baseline'', ''novelty_flag'']"

definition renderComparisonTable ::
  "builtins \<Rightarrow> (cmp_row list \<Rightarrow> cmp_row list) \<Rightarrow> state \<Rightarrow> string list list" where
  "renderComparisonTable B srt st =
     map (\<lambda>r. map (\<lambda>c. toStr B (nullish_else (getProp r c) (Str []))) comparisonCols)
       (srt (comparison st))"

text \<open>
  \<open>rebuildCategoryOptions\<close> replaces the options of the category list, which leaves
  its first option, \<open>all\<close>, selected. (The options themselves are not modelled.)
\<close>

definition rebuildCategoryOptions :: "els \<Rightarrow> els" where
  "rebuildCategoryOptions e = e\<lparr>categorySelect := ''all''\<rparr>"

text \<open>
  \<open>loadJsonObject\<close>. The argument is \<open>None\<close> for a parsed value that is falsy or
  not an object: the viewer alerts and returns. Otherwise each state field is the array
  under its name, or the empty array when there is none; \<open>figures\<close> is the object
  under that name or null. The result is the alert (if any), the new state and controls,
  and the statistics shown.
\<close>

definition arrRecords :: "jsfield option \<Rightarrow> rec list" where
  "arrRecords f = (case f of Some (RecordArray xs) \<Rightarrow> xs | _ \<Rightarrow> [])"

definition arrRows :: "jsfield option \<Rightarrow> cmp_row list" where
  "arrRows f = (case f of Some (RowArray xs) \<Rightarrow> xs | _ \<Rightarrow> [])"

definition arrTables :: "jsfield option \<Rightarrow> table_region list" where
  "arrTables f = (case f of Some (TableArray xs) \<Rightarrow> xs | _ \<Rightarrow> [])"

definition arrStrings :: "jsfield option \<Rightarrow> string list" where
  "arrStrings f = (case f of Some (StringArray xs) \<Rightarrow> xs | _ \<Rightarrow> [])"

definition objFigures :: "jsfield option \<Rightarrow> figures option" where
  "objFigures f = (case f of Some (FiguresObject g) \<Rightarrow> Some g | _ \<Rightarrow> None)"

definition loadJsonObject ::
  "builtins \<Rightarrow> (view list \<Rightarrow> view list) \<Rightarrow> els \<Rightarrow> json_object option \<Rightarrow> state \<Rightarrow>
     string option \<times> state \<times> els \<times> (string \<times> jsval) list" where
  "loadJsonObject B srt e parsed st =
     (case parsed of
        None \<Rightarrow> (Some ''Invalid JSON.'', st, e, [])
      | Some obj \<Rightarrow>
          (let st1 = st\<lparr> data := Some obj,
                         records := arrRecords (map_of obj ''records''),
                         comparison := arrRows (map_of obj ''comparison''),
                         tables := arrTables (map_of obj ''tables''),
                         state_figures := objFigures (map_of obj ''figures''),
                         logs := arrStrings (map_of obj ''logs'') \<rparr>;
               e1 = rebuildCategoryOptions e;
               (st2, shown) = renderRecordsTable B srt e1 st1
           in (None, st2, e1, shown)))"

section \<open>Exporting the filtered records\<close>

datatype error = TypeError

definition csvCols :: "string list" where
  "csvCols =
     [''material'', ''category'', ''property'', ''value_min'', ''value_max'',
      ''unit_original'', ''origin'', ''confidence'', ''page'', ''citations'', ''hard_fail'']"

text \<open>\<open>s.replace(/"/g, '""')\<close>: every double quote is doubled.\<close>

definition doubleQuotes :: "string \<Rightarrow> string" where
  "doubleQuotes s = concat (map (\<lambda>c. if c = CHR 0x22 then [CHR 0x22, CHR 0x22] else [c]) s)"

text \<open>A cell: the \<open>String\<close> of \<open>x ?? ''\<close>, quotes doubled, between double quotes.\<close>

definition csvCell :: "builtins \<Rightarrow> jsval \<Rightarrow> string" where
  "csvCell B x = [CHR 0x22] @ doubleQuotes (toStr B (nullish_else x (Str []))) @ [CHR 0x22]"

text \<open>\<open>(r?.constraints?.hard_fail || [])\<close>.\<close>

definition hardFailList :: "rec \<Rightarrow> string list" where
  "hardFailList r = (case hardFailOf r of None \<Rightarrow> [] | Some hf \<Rightarrow> hf)"

definition csvFields :: "rec \<Rightarrow> jsval list" where
  "csvFields r =
     [material r, category r, property r, value_min r, value_max r, unit_original r,
      origin r, confidence r, getPage r,
      Str (joinStrings ''; '' (citationsOf r)),
      Str (joinStrings ''; '' (hardFailList r))]"

definition csvRow :: "builtins \<Rightarrow> rec \<Rightarrow> string" where
  "csvRow B r = joinStrings '','' (map (csvCell B) (csvFields r))"

text \<open>
  The loop over the filtered views. \<open>state.records[v.idx]\<close> is undefined when the index
  is out of range, and reading its \<open>material\<close> then throws.
\<close>

fun csvLines :: "builtins \<Rightarrow> rec list \<Rightarrow> view list \<Rightarrow> string list \<Rightarrow> error + string list" where
  "csvLines B rs [] lines = Inr lines"
| "csvLines B rs (v # vs) lines =
     (if idx v < length rs then csvLines B rs vs (lines @ [csvRow B (rs ! idx v)])
      else Inl TypeError)"

text \<open>The text handed to \<open>downloadBlob\<close>: the lines joined by a line feed.\<close>

definition exportFilteredCsv :: "builtins \<Rightarrow> state \<Rightarrow> error + string" where
  "exportFilteredCsv B st =
     (case csvLines B (records st) (filteredRecordViews st) [joinStrings '','' csvCols] of
        Inl err \<Rightarrow> Inl err
      | Inr lines \<Rightarrow> Inr (joinStrings [CHR 0x0A] lines))"

text \<open>
  The array that \<open>exportFilteredJson\<close> serialises: the Record of every filtered view
  (\<open>None\<close> for an index out of range, which \<open>JSON.stringify\<close> writes as null).
\<close>

definition exportFilteredJson :: "state \<Rightarrow> rec option list" where
  "exportFilteredJson st =
     map (\<lambda>v. if idx v < length (records st) then Some (records st ! idx v) else None)
       (filteredRecordViews st)"

section \<open>The samples of the workflow page\<close>

text \<open>
  docs/assets/js/workflow.js holds, for each stage of the pipeline, a sample of what the
  stage produces. The samples of stages 2, 3 and 4 are a Record after extraction, the
  same Record after normalization and checks, and a ComparisonRow. Fields a sample does
  not list are missing. Characters outside ASCII are written in UTF-8.
\<close>

definition missing_rec :: rec where
  "missing_rec =
     \<lparr> material = Undefined, property = Undefined, category = Undefined,
       value_min = Undefined, value_max = Undefined, unit_original = Undefined,
       value_si_min = Undefined, value_si_max = Undefined, unit_si = Undefined,
       provenance = None, citations = None, origin = Undefined, confidence = Undefined,
       constraints = None, method_text = Undefined \<rparr>"

definition stage2_sample :: rec where
  "stage2_sample =
     missing_rec
     \<lparr> material := Str ''PEO-LiTFSI'',
       property := Str ''ionic_conductivity'',
       value_min := Num (12 / 100000),
       unit_original := Str ''S/cm'',
       provenance :=
         Some \<lparr> page = Num 5,
                snippet =
                  Str (''...ionic conductivity reached 1.2'' @ [CHR 0xC3, CHR 0x97] @
                       ''10^-4 S/cm at 25'' @ [CHR 0xC2, CHR 0xB0] @ ''C...'') \<rparr> \<rparr>"

definition stage3_sample :: rec where
  "stage3_sample =
     missing_rec
     \<lparr> value_min := Num (12 / 100000),
       unit_original := Str ''S/cm'',
       value_si_min := Num (12 / 1000),
       unit_si := Str ''S/m'',
       constraints :=
         Some \<lparr> hard_fail = Some [],
                soft_warn = Some [''temperature not explicit in same sentence''] \<rparr> \<rparr>"

definition stage4_sample :: cmp_row where
  "stage4_sample =
     [(''material'', Str ''PEO-LiTFSI''),
      (''property'', Str ''ionic_conductivity''),
      (''this_work'', Str ''1.2e-4 S/cm''),
      (''paper_cited_literature'', Str ''3.0e-5 to 9.0e-5 S/cm''),
      (''external_baseline'', Str ''1.0e-5 to 8.0e-5 S/cm''),
      (''novelty_flag'', Str ''possible_outlier_high'')]"

section \<open>The extraction engine, from its specification\<close>

text \<open>
  Modelled from the spec: the unit normalization engine. The engine (the
  \<open>ironclad/\<close> package the README lists under the repository layout) is not among
  the sources; section 4.2 of the specification gives its contract. A rule gives, for a
  property and a unit, the factor to the canonical SI unit of the property; the one rule
  the specification states is conductivity in S/cm, factor 100, to S/m. A unit with a
  prefix of the prefix table (m, micro, k) is the prefix factor composed with the rule of
  the base unit. Values are exact rationals.
\<close>

definition base_rules :: "((string \<times> string) \<times> (rat \<times> string)) list" where
  "base_rules = [((''ionic_conductivity'', ''S/cm''), (100, ''S/m''))]"

definition prefix_table :: "(string \<times> rat) list" where
  "prefix_table =
     [(''m'', 1 / 1000), ([CHR 0xC2, CHR 0xB5], 1 / 1000000), (''k'', 1000)]"

text \<open>
  Modelled from the spec: the lookup of the conversion rule (section 4.2), first for the
  unit as written, then for each prefix of the table in turn.
\<close>

fun prefixed_rule :: "string \<Rightarrow> string \<Rightarrow> (string \<times> rat) list \<Rightarrow> (rat \<times> string) option" where
  "prefixed_rule p u [] = None"
| "prefixed_rule p u ((pre, pf) # rest) =
     (if take (length pre) u = pre then
        (case map_of base_rules (p, drop (length pre) u) of
           Some (f, si) \<Rightarrow> Some (pf * f, si)
         | None \<Rightarrow> prefixed_rule p u rest)
      else prefixed_rule p u rest)"

definition conversion_rule :: "string \<Rightarrow> string \<Rightarrow> (rat \<times> string) option" where
  "conversion_rule p u =
     (case map_of base_rules (p, u) of
        Some fs \<Rightarrow> Some fs
      | None \<Rightarrow> prefixed_rule p u prefix_table)"

text \<open>
  Modelled from the spec: \<open>value_si = value_original * factor\<close> (section 4.2); a
  value that is not a number stays null.
\<close>

definition to_si :: "rat \<Rightarrow> jsval \<Rightarrow> jsval" where
  "to_si f v = (case v of Num x \<Rightarrow> Num (x * f) | _ \<Rightarrow> Null)"

text \<open>
  Modelled from the spec: normalization of a Record (section 4.2). With a rule for the
  Record's property and unit the SI values and the SI unit are set; with none they are
  left null and the method records \<open>unsupported_unit\<close>.
\<close>

definition normalize :: "rec \<Rightarrow> rec" where
  "normalize r =
     (case (property r, unit_original r) of
        (Str p, Str u) \<Rightarrow>
          (case conversion_rule p u of
             Some (f, si) \<Rightarrow>
               r\<lparr> value_si_min := to_si f (value_min r),
                  value_si_max := to_si f (value_max r),
                  unit_si := Str si \<rparr>
           | None \<Rightarrow>
               r\<lparr> value_si_min := Null, value_si_max := Null, unit_si := Null,
                  method_text := Str ''unsupported_unit'' \<rparr>)
      | _ \<Rightarrow>
          r\<lparr> value_si_min := Null, value_si_max := Null, unit_si := Null,
             method_text := Str ''unsupported_unit'' \<rparr>)"

text \<open>
  Modelled from the spec: the conversion back from SI (section 4.2), which multiplies the
  SI value by the inverse factor; a value that is not a number stays null.
\<close>

definition from_si :: "rat \<Rightarrow> jsval \<Rightarrow> jsval" where
  "from_si f v = (case v of Num y \<Rightarrow> Num (y * (1 / f)) | _ \<Rightarrow> Null)"

text \<open>
  Modelled from the spec: the two conversions in an arithmetic that rounds. The engine
  computes in floating point; \<open>rnd\<close> stands for the rounding of a result to the
  nearest number the arithmetic has. The product with the factor is rounded, and on the
  way back the inverse factor and the product with it are rounded. A rounding is within
  \<open>eps\<close> when it changes no number by more than \<open>eps\<close> times its magnitude;
  double precision rounds within \<open>2^-53\<close>, well inside \<open>1/10^10\<close>, as long as no
  result overflows or underflows.
\<close>

definition rounds_within :: "rat \<Rightarrow> (rat \<Rightarrow> rat) \<Rightarrow> bool" where
  "rounds_within eps rnd = (\<forall>y. \<bar>rnd y - y\<bar> \<le> eps * \<bar>y\<bar>)"

definition to_si_rounded :: "(rat \<Rightarrow> rat) \<Rightarrow> rat \<Rightarrow> rat \<Rightarrow> rat" where
  "to_si_rounded rnd f x = rnd (x * f)"

definition from_si_rounded :: "(rat \<Rightarrow> rat) \<Rightarrow> rat \<Rightarrow> rat \<Rightarrow> rat" where
  "from_si_rounded rnd f y = rnd (y * rnd (1 / f))"

text \<open>
  Modelled from the spec: the novelty rule of the comparison aggregator (section 4.5),
  which is not among the sources. A range is a pair of its minimum and maximum; a range
  that does not exist is \<open>None\<close>. The cases are tried in the order the specification
  gives. The union of the literature and baseline ranges is the set of values in either:
  \<open>this_work\<close> overlaps it when it overlaps one of them, its maximum is the larger
  maximum and its minimum the smaller minimum. With no \<open>this_work\<close> range none of
  the comparisons applies and the rule ends in its last case.
\<close>

datatype novelty_flag =
  none | possible_outlier_high | possible_outlier_low | within_baseline | no_baseline

type_synonym range = "rat \<times> rat"

definition overlaps :: "range \<Rightarrow> range \<Rightarrow> bool" where
  "overlaps a b = (fst a \<le> snd b \<and> fst b \<le> snd a)"

definition present :: "range option list \<Rightarrow> range list" where
  "present rs = concat (map (\<lambda>r. case r of None \<Rightarrow> [] | Some x \<Rightarrow> [x]) rs)"

fun union_max :: "range list \<Rightarrow> rat" where
  "union_max [] = 0"
| "union_max [r] = snd r"
| "union_max (r # rs) = max (snd r) (union_max rs)"

fun union_min :: "range list \<Rightarrow> rat" where
  "union_min [] = 0"
| "union_min [r] = fst r"
| "union_min (r # rs) = min (fst r) (union_min rs)"

definition novelty :: "range option \<Rightarrow> range option \<Rightarrow> range option \<Rightarrow> novelty_flag" where
  "novelty this_work' literature baseline =
     (let u = present [literature, baseline] in
      if u = [] then no_baseline
      else case this_work' of
        None \<Rightarrow> none
      | Some t \<Rightarrow>
          if list_ex (overlaps t) u then within_baseline
          else if fst t > union_max u then possible_outlier_high
          else if snd t < union_min u then possible_outlier_low
          else none)"

definition flag_name :: "novelty_flag \<Rightarrow> string" where
  "flag_name f =
     (case f of
        none \<Rightarrow> ''none''
      | possible_outlier_high \<Rightarrow> ''possible_outlier_high''
      | possible_outlier_low \<Rightarrow> ''possible_outlier_low''
      | within_baseline \<Rightarrow> ''within_baseline''
      | no_baseline \<Rightarrow> ''no_baseline'')"

text \<open>
  Modelled from the spec: the grouping and the ranges of the comparison aggregator
  (section 4.5), which is not among the sources. Records with a non-empty
  \<open>hard_fail\<close> are left out; the others are grouped by material, property and
  category. The range of a Record is its SI range when it has one, else its original
  range; a point value is the range from the value to itself. The range of a group of
  Records is from the least minimum to the greatest maximum, and does not exist for an
  empty group. A baseline entry matches a group by material and property.
\<close>

definition has_hard_fail :: "rec \<Rightarrow> bool" where
  "has_hard_fail r = (hardFailList r \<noteq> [])"

definition value_range :: "jsval \<Rightarrow> jsval \<Rightarrow> range option" where
  "value_range lo hi =
     (case lo of
        Num a \<Rightarrow> Some (a, case hi of Num b \<Rightarrow> b | _ \<Rightarrow> a)
      | _ \<Rightarrow> None)"

definition rec_range :: "rec \<Rightarrow> range option" where
  "rec_range r =
     (case value_range (value_si_min r) (value_si_max r) of
        Some x \<Rightarrow> Some x
      | None \<Rightarrow> value_range (value_min r) (value_max r))"

definition range_hull :: "range list \<Rightarrow> range option" where
  "range_hull rs = (if rs = [] then None else Some (union_min rs, union_max rs))"

record baseline_entry =
  base_material :: string
  base_property :: string
  base_value_min :: rat
  base_value_max :: rat
  base_unit_si :: string

record comparison_row =
  row_material :: jsval
  row_property :: jsval
  row_category :: jsval
  row_this_work :: "range option"
  row_paper_cited_literature :: "range option"
  row_external_baseline :: "range option"
  row_novelty_flag :: novelty_flag

definition group_key :: "rec \<Rightarrow> jsval \<times> jsval \<times> jsval" where
  "group_key r = (material r, property r, category r)"

definition range_over :: "string list \<Rightarrow> rec list \<Rightarrow> range option" where
  "range_over origins rs =
     range_hull (present (map rec_range (filter (\<lambda>r. origin r \<in> Str ` set origins) rs)))"

definition comparison_row_of ::
  "rec list \<Rightarrow> baseline_entry list \<Rightarrow> jsval \<times> jsval \<times> jsval \<Rightarrow> comparison_row" where
  "comparison_row_of rs baseline k =
     (let members = filter (\<lambda>r. group_key r = k) rs;
          tw = range_over [''this_work'', ''mixed''] members;
          lit = range_over [''literature'', ''mixed''] members;
          ext = range_hull (map (\<lambda>b. (base_value_min b, base_value_max b))
                   (filter (\<lambda>b. Str (base_material b) = fst k \<and>
                                Str (base_property b) = fst (snd k)) baseline))
      in \<lparr> row_material = fst k, row_property = fst (snd k), row_category = snd (snd k),
           row_this_work = tw, row_paper_cited_literature = lit,
           row_external_baseline = ext, row_novelty_flag = novelty tw lit ext \<rparr>)"

definition aggregate :: "rec list \<Rightarrow> baseline_entry list \<Rightarrow> comparison_row list" where
  "aggregate rs baseline =
     (let ok = filter (\<lambda>r. \<not> has_hard_fail r) rs
      in map (comparison_row_of ok baseline) (remdups (map group_key ok)))"

text \<open>
  Modelled from the spec: the document-level export object (section 6), whose writer is
  not among the sources: \<open>doc_id\<close>, \<open>records\<close>, \<open>comparison\<close>, \<open>tables\<close>,
  \<open>figures\<close> with its \<open>images\<close>, and \<open>logs\<close>, and the object it is written as.
\<close>

record export_object =
  export_doc_id :: string
  export_records :: "rec list"
  export_comparison :: "cmp_row list"
  export_tables :: "table_region list"
  export_images :: "figure_image list"
  export_logs :: "string list"

definition export_json :: "export_object \<Rightarrow> json_object" where
  "export_json x =
     [(''doc_id'', Scalar (Str (export_doc_id x))),
      (''records'', RecordArray (export_records x)),
      (''comparison'', RowArray (export_comparison x)),
      (''tables'', TableArray (export_tables x)),
      (''figures'', FiguresObject \<lparr> images = Some (export_images x) \<rparr>),
      (''logs'', StringArray (export_logs x))]"

section \<open>The four filters, as the specification words them\<close>

text \<open>
  A Record satisfies the filters when its origin equals the selected origin unless
  \<open>all\<close> is selected, its category equals the selected category unless \<open>all\<close> is
  selected, its \<open>hard_fail\<close> is non-empty whenever the hard-fail-only box is checked,
  and the lower-cased text of its material, property, category, provenance snippet and
  joined citations (put together with single spaces) contains the lower-cased trimmed
  search query. A missing origin or category reads as the empty string.
\<close>

definition passes_all_filters :: "builtins \<Rightarrow> els \<Rightarrow> rec \<Rightarrow> bool" where
  "passes_all_filters B e r =
     ((originSelect e = ''all'' \<or> or_else (origin r) (Str []) = Str (originSelect e)) \<and>
      (categorySelect e = ''all'' \<or> or_else (category r) (Str []) = Str (categorySelect e)) \<and>
      (hardFailOnly e \<longrightarrow> hardFailList r \<noteq> []) \<and>
      includes_str
        (toLowerCase B
           (joinStrings '' ''
              [joinElem B (material r), joinElem B (property r), joinElem B (category r),
               joinElem B (snippetOf r), joinStrings '' '' (citationsOf r)]))
        (toLowerCase B (trim B (searchInput e))))"

section \<open>A runtime for the examples\<close>

text \<open>
  To evaluate the functions on concrete inputs the runtime parameters are fixed as
  follows: lower-casing of the ASCII letters, trimming of spaces, tabs and line breaks,
  and the texts JavaScript gives for the numbers that occur in the examples.
\<close>

definition ascii_toLowerCase :: "string \<Rightarrow> string" where
  "ascii_toLowerCase s =
     map (\<lambda>c. case map_of (zip ''ABCDEFGHIJKLMNOPQRSTUVWXYZ'' ''abcdefghijklmnopqrstuvwxyz'') c of
                 None \<Rightarrow> c | Some d \<Rightarrow> d) s"

definition is_space :: "char \<Rightarrow> bool" where
  "is_space c = (c \<in> {CHR '' '', CHR 0x09, CHR 0x0A, CHR 0x0D})"

definition ascii_trim :: "string \<Rightarrow> string" where
  "ascii_trim s = rev (dropWhile is_space (rev (dropWhile is_space s)))"

definition example_runtime :: builtins where
  "example_runtime =
     \<lparr> numberToString =
         (\<lambda>n. case map_of [(12 / 100000, ''0.00012''), (12 / 1000, ''0.012''), (5, ''5''),
                            (9 / 10, ''0.9''), (3 / 100000, ''0.00003''),
                            (9 / 100000, ''0.00009'')] n of
                 None \<Rightarrow> [] | Some t \<Rightarrow> t),
       toExponential =
         (\<lambda>n d. if d = 3 then
                   (case map_of [(12 / 100000, ''1.200e-4''), (3 / 100000, ''3.000e-5''),
                                 (9 / 100000, ''9.000e-5'')] n of
                      None \<Rightarrow> [] | Some t \<Rightarrow> t)
                 else []),
       toFixed =
         (\<lambda>n d. if d = 4 then
                   (case map_of [(12 / 1000, ''0.0120''), (9 / 10, ''0.9000'')] n of
                      None \<Rightarrow> [] | Some t \<Rightarrow> t)
                 else []),
       toLowerCase = ascii_toLowerCase,
       trim = ascii_trim \<rparr>"

text \<open>
  A loaded document for the examples: the stage 2 sample labelled as this work, a cited
  value with an inverted range and the hard fail that goes with it, and the stage 3
  sample. The filter controls are the viewer actions of the stage 5 sample: search
  \<open>conductivity\<close>, origin \<open>this_work\<close>, hard-fail-only off.
\<close>

definition this_work_record :: rec where
  "this_work_record = stage2_sample\<lparr> origin := Str ''this_work'', confidence := Num (9 / 10) \<rparr>"

definition cited_record :: rec where
  "cited_record =
     stage2_sample
     \<lparr> value_min := Num (9 / 100000),
       value_max := Num (3 / 100000),
       citations := Some [''[12]'', ''Ref. 3''],
       origin := Str ''literature'',
       constraints := Some \<lparr> hard_fail = Some [''inverted_range''], soft_warn = Some [] \<rparr> \<rparr>"

definition example_records :: "rec list" where
  "example_records = [this_work_record, cited_record, stage3_sample]"

definition example_state :: state where
  "example_state =
     \<lparr> data = Some [(''doc_id'', Scalar (Str ''paper_demo_001''))],
       records = example_records,
       comparison = [stage4_sample],
       tables = [],
       state_figures = None,
       logs = [],
       filteredRecordViews = [] \<rparr>"

definition stage5_els :: els where
  "stage5_els =
     \<lparr> searchInput = ''conductivity'', originSelect = ''this_work'',
       categorySelect = ''all'', hardFailOnly = False \<rparr>"

definition no_filters :: els where
  "no_filters =
     \<lparr> searchInput = [], originSelect = ''all'', categorySelect = ''all'',
       hardFailOnly = False \<rparr>"

text \<open>
  The second scenario of the specification as a record set and a baseline: the stage 2
  sample as this work, a cited range from 3.0e-5 to 9.0e-5 S/cm for the same material and
  property, and a baseline entry from 1.0e-5 to 8.0e-5 S/cm, given in S/m.
\<close>

definition scenario2_records :: "rec list" where
  "scenario2_records =
     [stage2_sample\<lparr> origin := Str ''this_work'' \<rparr>,
      stage2_sample\<lparr> value_min := Num (3 / 100000), value_max := Num (9 / 100000),
                     origin := Str ''literature'' \<rparr>]"

definition scenario2_baseline :: "baseline_entry list" where
  "scenario2_baseline =
     [\<lparr> base_material = ''PEO-LiTFSI'', base_property = ''ionic_conductivity'',
        base_value_min = 1 / 1000, base_value_max = 8 / 1000, base_unit_si = ''S/m'' \<rparr>]"

text \<open>
  A rounding for the examples: every number is moved up by one part in \<open>10^11\<close> of
  itself.
\<close>

definition example_rounding :: "rat \<Rightarrow> rat" where
  "example_rounding y = y + y / 100000000000"

text \<open>A text between double quotes, to write the expected CSV cells of the examples.\<close>

definition quoted :: "string \<Rightarrow> string" where
  "quoted s = [CHR 0x22] @ s @ [CHR 0x22]"

section \<open>Auxiliary facts\<close>

subsection \<open>Searching a text\<close>

lemma startsWith_iff: "startsWith s q \<longleftrightarrow> (\<exists>ys. s = q @ ys)"
  by (induction s q rule: startsWith.induct) auto

lemma includes_str_iff: "includes_str s q \<longleftrightarrow> (\<exists>xs ys. s = xs @ q @ ys)"
proof (induction s)
  case Nil
  then show ?case by auto
next
  case (Cons c s)
  have "(\<exists>xs ys. c # s = xs @ q @ ys) \<longleftrightarrow>
          (\<exists>ys. c # s = q @ ys) \<or> (\<exists>xs ys. s = xs @ q @ ys)"
  proof
    assume "\<exists>xs ys. c # s = xs @ q @ ys"
    then obtain xs ys where e: "c # s = xs @ q @ ys" by blast
    show "(\<exists>ys. c # s = q @ ys) \<or> (\<exists>xs ys. s = xs @ q @ ys)"
    proof (cases xs)
      case Nil
      with e show ?thesis by auto
    next
      case (Cons x xs')
      with e have "s = xs' @ q @ ys" by simp
      then show ?thesis by blast
    qed
  next
    assume "(\<exists>ys. c # s = q @ ys) \<or> (\<exists>xs ys. s = xs @ q @ ys)"
    then show "\<exists>xs ys. c # s = xs @ q @ ys"
    proof
      assume "\<exists>ys. c # s = q @ ys"
      then obtain ys where "c # s = [] @ q @ ys" by auto
      then show ?thesis by blast
    next
      assume "\<exists>xs ys. s = xs @ q @ ys"
      then obtain xs ys where "c # s = (c # xs) @ q @ ys" by auto
      then show ?thesis by blast
    qed
  qed
  with Cons show ?case by (simp add: startsWith_iff)
qed

lemma includes_str_Nil [simp]: "includes_str s [] = True"
  by (cases s) simp_all

subsection \<open>The filter and the loop that builds the views\<close>

lemma recordMatchesFilters_iff:
  "recordMatchesFilters B e r \<longleftrightarrow> passes_all_filters B e r"
  by (auto simp: recordMatchesFilters_def passes_all_filters_def Let_def hay_def join_def
      joinElem_def nullish_def hardFailList_def split: option.splits)

lemma buildRecordViews_loop_eq:
  "buildRecordViews_loop B e rs i views =
     views @ map (\<lambda>j. mkView B j (rs ! j))
               (filter (\<lambda>j. recordMatchesFilters B e (rs ! j)) [i..<length rs])"
proof (induction B e rs i views rule: buildRecordViews_loop.induct)
  case (1 B e rs i views)
  show ?case
  proof (cases "i < length rs")
    case True
    then have u: "[i..<length rs] = i # [Suc i..<length rs]"
      by (simp add: upt_conv_Cons)
    show ?thesis
      using True 1 u by (subst buildRecordViews_loop.simps) (simp add: Let_def)
  next
    case False
    then show ?thesis by (subst buildRecordViews_loop.simps) simp
  qed
qed

lemma buildRecordViews_eq:
  "buildRecordViews B e rs =
     map (\<lambda>j. mkView B j (rs ! j))
       (filter (\<lambda>j. recordMatchesFilters B e (rs ! j)) [0..<length rs])"
  by (simp add: buildRecordViews_def buildRecordViews_loop_eq)

lemma idx_mkView [simp]: "idx (mkView B i r) = i"
  by (simp add: mkView_def)

lemma map_idx_buildRecordViews:
  "map idx (buildRecordViews B e rs) =
     filter (\<lambda>j. recordMatchesFilters B e (rs ! j)) [0..<length rs]"
  by (simp add: buildRecordViews_eq comp_def)

lemma nth_filter_indices:
  "map ((!) rs) (filter (\<lambda>j. P (rs ! j)) [0..<length rs]) = filter P rs"
proof -
  have "filter P (map ((!) rs) [0..<length rs]) =
          map ((!) rs) (filter (P \<circ> (!) rs) [0..<length rs])"
    by (rule filter_map)
  then show ?thesis by (simp add: map_nth comp_def)
qed

subsection \<open>Sorting, rendering and the exports\<close>

lemma rearranges_mset: "rearranges srt \<Longrightarrow> mset (srt xs) = mset xs"
  by (simp add: rearranges_def)

lemma rearranges_set: "rearranges srt \<Longrightarrow> set (srt xs) = set xs"
  by (metis rearranges_mset set_mset_mset)

lemma rearranges_rev: "rearranges rev"
  by (simp add: rearranges_def)

lemma rearranges_id: "rearranges (\<lambda>xs. xs)"
  by (simp add: rearranges_def)

lemma records_renderRecordsTable [simp]:
  "records (fst (renderRecordsTable B srt e st)) = records st"
  by (simp add: renderRecordsTable_def Let_def)

lemma views_renderRecordsTable [simp]:
  "filteredRecordViews (fst (renderRecordsTable B srt e st)) =
     srt (buildRecordViews B e (records st))"
  by (simp add: renderRecordsTable_def Let_def)

lemma idx_in_range:
  assumes "rearranges srt" and "v \<in> set (srt (buildRecordViews B e rs))"
  shows "idx v < length rs"
proof -
  from assms have "v \<in> set (buildRecordViews B e rs)"
    by (simp add: rearranges_set)
  then have "idx v \<in> set (map idx (buildRecordViews B e rs))"
    by simp
  then show ?thesis
    unfolding map_idx_buildRecordViews by simp
qed

lemma csvLines_eq:
  "\<forall>v\<in>set vs. idx v < length rs \<Longrightarrow>
     csvLines B rs vs lines = Inr (lines @ map (\<lambda>v. csvRow B (rs ! idx v)) vs)"
  by (induction vs arbitrary: lines) simp_all

lemma mset_map_nth_idx:
  assumes "rearranges srt"
  shows "mset (map (\<lambda>v. f (rs ! idx v)) (srt (buildRecordViews B e rs))) =
           mset (map f (filter (recordMatchesFilters B e) rs))"
proof -
  have "mset (map (\<lambda>v. f (rs ! idx v)) (srt (buildRecordViews B e rs))) =
          image_mset (\<lambda>v. f (rs ! idx v)) (mset (buildRecordViews B e rs))"
    using assms by (simp add: rearranges_mset)
  also have "\<dots> = mset (map (\<lambda>v. f (rs ! idx v)) (buildRecordViews B e rs))"
    by simp
  also have "map (\<lambda>v. f (rs ! idx v)) (buildRecordViews B e rs) =
               map f (map ((!) rs) (map idx (buildRecordViews B e rs)))"
    by (simp add: comp_def)
  also have "\<dots> = map f (filter (recordMatchesFilters B e) rs)"
    by (simp only: map_idx_buildRecordViews nth_filter_indices)
  finally show ?thesis .
qed

lemma exportFilteredCsv_after_render:
  assumes "rearranges srt"
  shows "\<exists>lines. exportFilteredCsv B (fst (renderRecordsTable B srt e st)) =
               Inr (joinStrings [CHR 0x0A] (joinStrings '','' csvCols # lines)) \<and>
             mset lines = mset (map (csvRow B) (filter (recordMatchesFilters B e) (records st)))"
proof -
  let ?st = "fst (renderRecordsTable B srt e st)"
  let ?rs = "records st"
  have in_range: "\<forall>v\<in>set (srt (buildRecordViews B e ?rs)). idx v < length ?rs"
    using assms idx_in_range by blast
  have "exportFilteredCsv B ?st =
          Inr (joinStrings [CHR 0x0A]
                 (joinStrings '','' csvCols #
                  map (\<lambda>v. csvRow B (?rs ! idx v)) (srt (buildRecordViews B e ?rs))))"
    using in_range by (simp add: exportFilteredCsv_def csvLines_eq)
  moreover have "mset (map (\<lambda>v. csvRow B (?rs ! idx v)) (srt (buildRecordViews B e ?rs))) =
                   mset (map (csvRow B) (filter (recordMatchesFilters B e) ?rs))"
    using mset_map_nth_idx [OF assms, of "csvRow B" ?rs B e] by simp
  ultimately show ?thesis by blast
qed

subsection \<open>Aggregation\<close>

lemma aggregate_drop_hard_fail:
  "has_hard_fail r \<Longrightarrow> aggregate (xs @ r # ys) baseline = aggregate (xs @ ys) baseline"
  by (simp add: aggregate_def)

subsection \<open>Counting by origin\<close>

lemma countOf_upd: "countOf (m(k \<mapsto> v)) x = (if x = k then v else countOf m x)"
  by (simp add: countOf_def)

lemma sum_countOf_upd_notin:
  "k \<notin> set ks \<Longrightarrow> (\<Sum>x\<leftarrow>ks. countOf (m(k \<mapsto> v)) x) = (\<Sum>x\<leftarrow>ks. countOf m x)"
  by (induction ks) (auto simp: countOf_upd)

lemma sum_countOf_upd_in:
  "distinct ks \<Longrightarrow> k \<in> set ks \<Longrightarrow>
     (\<Sum>x\<leftarrow>ks. countOf (m(k \<mapsto> countOf m k + 1)) x) = (\<Sum>x\<leftarrow>ks. countOf m x) + 1"
proof (induction ks)
  case Nil
  then show ?case by simp
next
  case (Cons a ks)
  let ?u = "m(k \<mapsto> countOf m k + 1)"
  have split: "(\<Sum>x\<leftarrow>a # ks. countOf f x) = countOf f a + (\<Sum>x\<leftarrow>ks. countOf f x)" for f
    by (simp only: list.map sum_list.Cons)
  show ?case
  proof (cases "a = k")
    case True
    with Cons.prems have "k \<notin> set ks" by simp
    then have 1: "(\<Sum>x\<leftarrow>ks. countOf ?u x) = (\<Sum>x\<leftarrow>ks. countOf m x)"
      by (rule sum_countOf_upd_notin)
    have 2: "countOf ?u a = countOf m a + 1"
      unfolding True countOf_upd by simp
    show ?thesis
      unfolding split 1 2 by (simp only: add_ac)
  next
    case False
    with Cons.prems have "distinct ks" "k \<in> set ks" by auto
    then have 1: "(\<Sum>x\<leftarrow>ks. countOf ?u x) = (\<Sum>x\<leftarrow>ks. countOf m x) + 1"
      by (rule Cons.IH)
    have 2: "countOf ?u a = countOf m a"
      unfolding countOf_upd using False by simp
    show ?thesis
      unfolding split 1 2 by (simp only: add_ac)
  qed
qed

lemma countByOrigin_sum:
  assumes "distinct ks"
    and "\<forall>r\<in>set rs. toStr B (or_else (origin r) (Str ''unclear'')) \<in> set ks"
  shows "(\<Sum>k\<leftarrow>ks. countOf (countByOrigin B rs m) k) = (\<Sum>k\<leftarrow>ks. countOf m k) + length rs"
  using assms(2)
proof (induction rs arbitrary: m)
  case Nil
  then show ?case by simp
next
  case (Cons r rs)
  let ?k = "toStr B (or_else (origin r) (Str ''unclear''))"
  let ?m = "m(?k \<mapsto> countOf m ?k + 1)"
  have k: "?k \<in> set ks" using Cons.prems by simp
  have "(\<Sum>k\<leftarrow>ks. countOf (countByOrigin B (r # rs) m) k) =
          (\<Sum>k\<leftarrow>ks. countOf (countByOrigin B rs ?m) k)"
    by (simp add: Let_def countOf_def)
  also have "\<dots> = (\<Sum>k\<leftarrow>ks. countOf ?m k) + length rs"
    using Cons.prems by (intro Cons.IH) simp
  also have "(\<Sum>k\<leftarrow>ks. countOf ?m k) = (\<Sum>k\<leftarrow>ks. countOf m k) + 1"
    using assms(1) k by (rule sum_countOf_upd_in)
  finally show ?case by simp
qed

lemma origin_key_cases:
  assumes "\<not> truthy (origin r) \<or>
           origin r \<in> {Str ''this_work'', Str ''literature'', Str ''mixed'', Str ''unclear''}"
  shows "toStr B (or_else (origin r) (Str ''unclear'')) \<in>
           set [''this_work'', ''literature'', ''mixed'', ''unclear'']"
  using assms by (auto simp: or_else_def)

subsection \<open>Unit conversion\<close>

lemma prefixed_rule_nonzero:
  "prefixed_rule p u tbl = Some (f, si) \<Longrightarrow> \<forall>pf\<in>snd ` set tbl. pf \<noteq> 0 \<Longrightarrow> f \<noteq> 0"
proof (induction p u tbl rule: prefixed_rule.induct)
  case (1 p u)
  then show ?case by simp
next
  case (2 p u pre pf rest)
  show ?case
  proof (cases "take (length pre) u = pre")
    case True
    show ?thesis
    proof (cases "map_of base_rules (p, drop (length pre) u)")
      case None
      with True 2 show ?thesis by simp
    next
      case (Some a)
      obtain g t where a: "a = (g, t)" by (cases a)
      from Some a have "g = 100"
        by (auto simp: base_rules_def split: if_splits)
      with True Some a 2 show ?thesis by auto
    qed
  next
    case False
    with 2 show ?thesis by simp
  qed
qed

lemma conversion_rule_nonzero:
  assumes "conversion_rule p u = Some (f, si)"
  shows "f \<noteq> 0"
proof (cases "map_of base_rules (p, u)")
  case None
  with assms have "prefixed_rule p u prefix_table = Some (f, si)"
    by (simp add: conversion_rule_def)
  then show ?thesis
    by (rule prefixed_rule_nonzero) (simp add: prefix_table_def)
next
  case (Some a)
  with assms have "a = (f, si)" by (simp add: conversion_rule_def)
  with Some show ?thesis
    by (auto simp: base_rules_def split: if_splits)
qed

lemma rounded_round_trip:
  fixes x f :: rat
  assumes f: "f \<noteq> 0" and r: "rounds_within (1 / 10000000000) rnd"
  shows "\<bar>from_si_rounded rnd f (to_si_rounded rnd f x) - x\<bar> \<le> \<bar>x\<bar> / 1000000000"
proof -
  define e :: rat where "e = 1 / 10000000000"
  define m where "m = x * f"
  define h where "h = 1 / f"
  define a where "a = rnd m"
  define g where "g = rnd h"
  define c where "c = rnd (a * g)"
  have e: "0 \<le> e" by (simp add: e_def)
  have R: "\<bar>rnd y - y\<bar> \<le> e * \<bar>y\<bar>" for y
    using r by (simp add: rounds_within_def e_def)
  have A: "\<bar>a - m\<bar> \<le> e * \<bar>m\<bar>" unfolding a_def by (rule R)
  have G: "\<bar>g - h\<bar> \<le> e * \<bar>h\<bar>" unfolding g_def by (rule R)
  have C: "\<bar>c - a * g\<bar> \<le> e * \<bar>a * g\<bar>" unfolding c_def by (rule R)
  have mh: "m * h = x"
    using f by (simp add: m_def h_def)
  then have amh: "\<bar>m\<bar> * \<bar>h\<bar> = \<bar>x\<bar>"
    by (simp add: abs_mult [symmetric])
  have gb: "\<bar>g\<bar> \<le> (1 + e) * \<bar>h\<bar>"
  proof -
    have "\<bar>g\<bar> \<le> \<bar>g - h\<bar> + \<bar>h\<bar>" by linarith
    moreover have "(1 + e) * \<bar>h\<bar> = \<bar>h\<bar> + e * \<bar>h\<bar>"
      by (simp only: distrib_right mult_1)
    ultimately show ?thesis using G by linarith
  qed
  have ab: "\<bar>a\<bar> \<le> (1 + e) * \<bar>m\<bar>"
  proof -
    have "\<bar>a\<bar> \<le> \<bar>a - m\<bar> + \<bar>m\<bar>" by linarith
    moreover have "(1 + e) * \<bar>m\<bar> = \<bar>m\<bar> + e * \<bar>m\<bar>"
      by (simp only: distrib_right mult_1)
    ultimately show ?thesis using A by linarith
  qed
  have split: "a * g - x = (a - m) * g + m * (g - h)"
    using mh by (simp add: algebra_simps)
  have "\<bar>a - m\<bar> * \<bar>g\<bar> \<le> (e * \<bar>m\<bar>) * ((1 + e) * \<bar>h\<bar>)"
    by (rule mult_mono [OF A gb]) (use e in simp_all)
  also have "(e * \<bar>m\<bar>) * ((1 + e) * \<bar>h\<bar>) = e * (1 + e) * (\<bar>m\<bar> * \<bar>h\<bar>)"
    by (simp only: mult_ac)
  finally have t1: "\<bar>(a - m) * g\<bar> \<le> e * (1 + e) * \<bar>x\<bar>"
    by (simp only: amh abs_mult)
  have "\<bar>m\<bar> * \<bar>g - h\<bar> \<le> \<bar>m\<bar> * (e * \<bar>h\<bar>)"
    by (rule mult_left_mono [OF G]) simp
  also have "\<bar>m\<bar> * (e * \<bar>h\<bar>) = e * (\<bar>m\<bar> * \<bar>h\<bar>)"
    by (simp only: mult_ac)
  finally have t2: "\<bar>m * (g - h)\<bar> \<le> e * \<bar>x\<bar>"
    by (simp only: amh abs_mult)
  have d1: "\<bar>a * g - x\<bar> \<le> e * (1 + e) * \<bar>x\<bar> + e * \<bar>x\<bar>"
    unfolding split using t1 t2 by linarith
  have "\<bar>a\<bar> * \<bar>g\<bar> \<le> ((1 + e) * \<bar>m\<bar>) * ((1 + e) * \<bar>h\<bar>)"
    by (rule mult_mono [OF ab gb]) (use e in simp_all)
  also have "((1 + e) * \<bar>m\<bar>) * ((1 + e) * \<bar>h\<bar>) = (1 + e) * (1 + e) * (\<bar>m\<bar> * \<bar>h\<bar>)"
    by (simp only: mult_ac)
  finally have agb: "\<bar>a * g\<bar> \<le> (1 + e) * (1 + e) * \<bar>x\<bar>"
    by (simp only: amh abs_mult)
  have "e * \<bar>a * g\<bar> \<le> e * ((1 + e) * (1 + e) * \<bar>x\<bar>)"
    by (rule mult_left_mono [OF agb e])
  with C have d2: "\<bar>c - a * g\<bar> \<le> e * ((1 + e) * (1 + e) * \<bar>x\<bar>)" by linarith
  have "\<bar>c - x\<bar> \<le> \<bar>c - a * g\<bar> + \<bar>a * g - x\<bar>" by linarith
  with d1 d2 have "\<bar>c - x\<bar> \<le> e * ((1 + e) * (1 + e) * \<bar>x\<bar>) + (e * (1 + e) * \<bar>x\<bar> + e * \<bar>x\<bar>)"
    by linarith
  also have "\<dots> = (e * ((1 + e) * (1 + e)) + e * (1 + e) + e) * \<bar>x\<bar>"
    by (simp add: algebra_simps)
  also have "\<dots> \<le> (1 / 1000000000) * \<bar>x\<bar>"
    by (rule mult_right_mono) (simp_all add: e_def)
  finally show ?thesis
    by (simp add: from_si_rounded_def to_si_rounded_def a_def g_def c_def m_def h_def)
qed

subsection \<open>The cells of a CSV line\<close>

lemma csvRow_cells:
  "csvRow B r =
     joinStrings '',''
       [csvCell B (material r), csvCell B (category r), csvCell B (property r),
        csvCell B (value_min r), csvCell B (value_max r), csvCell B (unit_original r),
        csvCell B (origin r), csvCell B (confidence r), csvCell B (getPage r),
        csvCell B (Str (joinStrings ''; '' (citationsOf r))),
        csvCell B (Str (joinStrings ''; '' (hardFailList r)))]"
  unfolding csvRow_def csvFields_def by (simp only: list.map)

subsection \<open>The examples, evaluated\<close>

lemmas example_defs =
  this_work_record_def cited_record_def stage2_sample_def stage3_sample_def missing_rec_def
  stage5_els_def no_filters_def example_runtime_def ascii_toLowerCase_def ascii_trim_def
  is_space_def

lemmas filter_defs =
  passes_all_filters_def or_else_def joinElem_def nullish_def
  snippetOf_def citationsOf_def hardFailList_def hardFailOf_def

lemma records_example_state: "records example_state = example_records"
  by (simp add: example_state_def)

lemma stage5_this_work: "passes_all_filters example_runtime stage5_els this_work_record"
  by (simp add: example_defs filter_defs)

lemma stage5_cited: "\<not> passes_all_filters example_runtime stage5_els cited_record"
  by (simp add: example_defs filter_defs)

lemma stage5_stage3: "\<not> passes_all_filters example_runtime stage5_els stage3_sample"
  by (simp add: example_defs filter_defs)

lemma stage5_views:
  "buildRecordViews example_runtime stage5_els example_records =
     [mkView example_runtime 0 this_work_record]"
  by (simp add: buildRecordViews_eq example_records_def upt_rec [of 0] upt_rec [of 1]
      upt_rec [of 2] eval_nat_numeral recordMatchesFilters_iff
      stage5_this_work stage5_cited stage5_stage3)

lemma no_filters_views:
  "buildRecordViews example_runtime no_filters example_records =
     [mkView example_runtime 0 this_work_record, mkView example_runtime 1 cited_record,
      mkView example_runtime 2 stage3_sample]"
proof -
  have q: "toLowerCase example_runtime (trim example_runtime (searchInput no_filters)) = []"
    by (simp add: example_defs)
  have "recordMatchesFilters example_runtime no_filters r" for r
    by (simp add: recordMatchesFilters_iff passes_all_filters_def q) (simp add: no_filters_def)
  then show ?thesis
    by (simp add: buildRecordViews_eq example_records_def upt_rec [of 0] upt_rec [of 1]
        upt_rec [of 2] eval_nat_numeral)
qed

lemma example_counts:
  "map (countOf (countByOrigin example_runtime example_records Map.empty))
     [''this_work'', ''literature'', ''mixed'', ''unclear''] = [1, 1, 0, 1]"
  by (simp add: example_records_def this_work_record_def cited_record_def stage2_sample_def
      stage3_sample_def missing_rec_def or_else_def countOf_def)

lemma aggregate_without_cited:
  "aggregate [this_work_record, stage3_sample] [] =
     [\<lparr> row_material = Str ''PEO-LiTFSI'', row_property = Str ''ionic_conductivity'',
        row_category = Undefined, row_this_work = Some (12 / 100000, 12 / 100000),
        row_paper_cited_literature = None, row_external_baseline = None,
        row_novelty_flag = no_baseline \<rparr>,
      \<lparr> row_material = Undefined, row_property = Undefined, row_category = Undefined,
        row_this_work = None, row_paper_cited_literature = None,
        row_external_baseline = None, row_novelty_flag = no_baseline \<rparr>]"
  by (simp add: aggregate_def comparison_row_of_def group_key_def range_over_def range_hull_def
      present_def rec_range_def value_range_def novelty_def has_hard_fail_def hardFailList_def
      hardFailOf_def this_work_record_def stage2_sample_def stage3_sample_def missing_rec_def
      Let_def)

section \<open>The claims\<close>

subsection \<open>The CSV export of the filtered records\<close>

text \<open>
  C1. The text \<open>exportFilteredCsv\<close> hands to the download is, line by line: the
  header \<open>material,category,property,value_min,value_max,unit_original,origin,confidence,page,citations,hard_fail\<close>,
  then for every filtered view one line with eleven cells in that order, each the quoted
  text of the Record's field of that name; the \<open>page\<close> cell is taken from
  \<open>provenance.page\<close>, and the \<open>citations\<close> and \<open>hard_fail\<close> cells are
  their sequences joined by \<open>; \<close>. The views index into the records, as they do
  after every \<open>renderRecordsTable\<close>.
\<close>

theorem exportFilteredCsv_columns:
  assumes "\<forall>v\<in>set (filteredRecordViews st). idx v < length (records st)"
  shows "exportFilteredCsv B st =
    Inr (joinStrings [CHR 0x0A]
      (''material,category,property,value_min,value_max,unit_original,origin,confidence,page,citations,hard_fail'' #
       map (\<lambda>v. let r = records st ! idx v in
              joinStrings '',''
                [csvCell B (material r), csvCell B (category r), csvCell B (property r),
                 csvCell B (value_min r), csvCell B (value_max r), csvCell B (unit_original r),
                 csvCell B (origin r), csvCell B (confidence r),
                 csvCell B (case provenance r of
                              None \<Rightarrow> Str []
                            | Some p \<Rightarrow> nullish_else (page p) (Str [])),
                 csvCell B (Str (joinStrings ''; ''
                              (case citations r of None \<Rightarrow> [] | Some cs \<Rightarrow> cs))),
                 csvCell B (Str (joinStrings ''; ''
                              (case constraints r of
                                 None \<Rightarrow> []
                               | Some c \<Rightarrow> (case hard_fail c of None \<Rightarrow> [] | Some hf \<Rightarrow> hf))))])
         (filteredRecordViews st)))"
proof -
  have hdr: "joinStrings '','' csvCols =
      ''material,category,property,value_min,value_max,unit_original,origin,confidence,page,citations,hard_fail''"
    by (simp add: csvCols_def)
  have page: "getPage r =
      (case provenance r of None \<Rightarrow> Str [] | Some p \<Rightarrow> nullish_else (page p) (Str []))" for r
    by (simp add: getPage_def nullish_else_def nullish_def split: option.splits)
  have hf: "hardFailList r =
      (case constraints r of
         None \<Rightarrow> []
       | Some c \<Rightarrow> (case hard_fail c of None \<Rightarrow> [] | Some hf \<Rightarrow> hf))" for r
    by (simp add: hardFailList_def hardFailOf_def split: option.splits)
  have row: "csvRow B r =
      joinStrings '',''
        [csvCell B (material r), csvCell B (category r), csvCell B (property r),
         csvCell B (value_min r), csvCell B (value_max r), csvCell B (unit_original r),
         csvCell B (origin r), csvCell B (confidence r),
         csvCell B (case provenance r of
                      None \<Rightarrow> Str []
                    | Some p \<Rightarrow> nullish_else (page p) (Str [])),
         csvCell B (Str (joinStrings ''; ''
                      (case citations r of None \<Rightarrow> [] | Some cs \<Rightarrow> cs))),
         csvCell B (Str (joinStrings ''; ''
                      (case constraints r of
                         None \<Rightarrow> []
                       | Some c \<Rightarrow> (case hard_fail c of None \<Rightarrow> [] | Some hf \<Rightarrow> hf))))]" for r
    unfolding csvRow_def csvFields_def page hf citationsOf_def by (simp only: list.map)
  from assms have "csvLines B (records st) (filteredRecordViews st) [joinStrings '','' csvCols] =
      Inr ([joinStrings '','' csvCols] @
           map (\<lambda>v. csvRow B (records st ! idx v)) (filteredRecordViews st))"
    by (rule csvLines_eq)
  then show ?thesis
    unfolding exportFilteredCsv_def hdr row by (simp only: sum.case append_Cons append_Nil Let_def)
qed

theorem exportFilteredCsv_columns_witness:
  "exportFilteredCsv example_runtime
     (fst (renderRecordsTable example_runtime (\<lambda>xs. xs) no_filters example_state)) =
   Inr (joinStrings [CHR 0x0A]
     [''material,category,property,value_min,value_max,unit_original,origin,confidence,page,citations,hard_fail'',
      joinStrings '','' (map quoted
        [''PEO-LiTFSI'', [], ''ionic_conductivity'', ''0.00012'', [], ''S/cm'', ''this_work'',
         ''0.9'', ''5'', [], []]),
      joinStrings '','' (map quoted
        [''PEO-LiTFSI'', [], ''ionic_conductivity'', ''0.00009'', ''0.00003'', ''S/cm'',
         ''literature'', [], ''5'', ''[12]; Ref. 3'', ''inverted_range'']),
      joinStrings '','' (map quoted
        [[], [], [], ''0.00012'', [], ''S/cm'', [], [], [], [], []])])"
proof -
  let ?st = "fst (renderRecordsTable example_runtime (\<lambda>xs. xs) no_filters example_state)"
  have V: "filteredRecordViews ?st =
     [mkView example_runtime 0 this_work_record, mkView example_runtime 1 cited_record,
      mkView example_runtime 2 stage3_sample]"
    by (simp add: records_example_state no_filters_views)
  have R: "records ?st = [this_work_record, cited_record, stage3_sample]"
    by (simp add: records_example_state example_records_def)
  have H: "\<forall>v\<in>set (filteredRecordViews ?st). idx v < length (records ?st)"
    unfolding V R by simp
  show ?thesis
    unfolding exportFilteredCsv_columns [OF H, of example_runtime] V R
    by (simp add: example_defs csvCell_def doubleQuotes_def quoted_def nullish_else_def nullish_def)
qed

subsection \<open>The comparison table\<close>

text \<open>
  C2. \<open>renderComparisonTable\<close> renders every ComparisonRow (in the order of the
  current sort) as exactly seven cells, for the columns material, property, category,
  this_work, paper_cited_literature, external_baseline and novelty_flag in that order;
  each cell is the text of the row's field of that name, and the empty string when the
  field is missing or null.
\<close>

theorem renderComparisonTable_columns:
  assumes "rearranges srt"
  shows "mset (renderComparisonTable B srt st) =
    mset (map (\<lambda>r. map (\<lambda>c. case map_of r c of
                               None \<Rightarrow> []
                             | Some v \<Rightarrow> if v = Null \<or> v = Undefined then [] else toStr B v)
                      [''material'', ''property'', ''category'', ''this_work'',
                       ''paper_cited_literature'', ''external_baseline'', ''novelty_flag''])
           (comparison st))"
proof -
  have cell: "toStr B (nullish_else (getProp r c) (Str [])) =
      (case map_of r c of
         None \<Rightarrow> []
       | Some v \<Rightarrow> if v = Null \<or> v = Undefined then [] else toStr B v)" for r c
    by (simp add: getProp_def nullish_else_def nullish_def split: option.splits)
  have "mset (renderComparisonTable B srt st) =
      image_mset (\<lambda>r. map (\<lambda>c. toStr B (nullish_else (getProp r c) (Str []))) comparisonCols)
        (mset (srt (comparison st)))"
    by (simp add: renderComparisonTable_def)
  also have "mset (srt (comparison st)) = mset (comparison st)"
    using assms by (rule rearranges_mset)
  finally show ?thesis
    by (simp add: cell comparisonCols_def)
qed

theorem renderComparisonTable_columns_witness:
  "renderComparisonTable example_runtime (\<lambda>xs. xs) example_state =
     [[''PEO-LiTFSI'', ''ionic_conductivity'', [], ''1.2e-4 S/cm'', ''3.0e-5 to 9.0e-5 S/cm'',
       ''1.0e-5 to 8.0e-5 S/cm'', ''possible_outlier_high'']]"
proof -
  have "mset (renderComparisonTable example_runtime (\<lambda>xs. xs) example_state) =
     mset [[''PEO-LiTFSI'', ''ionic_conductivity'', [], ''1.2e-4 S/cm'', ''3.0e-5 to 9.0e-5 S/cm'',
       ''1.0e-5 to 8.0e-5 S/cm'', ''possible_outlier_high'']]"
    unfolding renderComparisonTable_columns [OF rearranges_id]
    by (simp add: example_state_def stage4_sample_def)
  then show ?thesis
    by simp
qed

subsection \<open>The novelty rule on the second scenario\<close>

text \<open>
  C3. For a group whose \<open>this_work\<close> value is 1.2e-4 S/cm, whose paper-cited
  literature range is [3.0e-5, 9.0e-5] S/cm and whose external baseline range is
  [1.0e-5, 8.0e-5] S/cm, the novelty rule gives \<open>possible_outlier_high\<close>:
  \<open>this_work\<close> overlaps neither range, the maximum of their union is 9.0e-5, and the
  minimum of \<open>this_work\<close> exceeds it. The stage 4 sample of the workflow page, which
  shows these three ranges, carries the same flag. Run on a record set and a baseline with
  these values, normalization and aggregation give the one comparison row with the three
  ranges in S/m and that flag.
\<close>

theorem novelty_scenario_2:
  "novelty (Some (12 / 100000, 12 / 100000)) (Some (3 / 100000, 9 / 100000))
     (Some (1 / 100000, 8 / 100000)) = possible_outlier_high \<and>
   \<not> overlaps (12 / 100000, 12 / 100000) (3 / 100000, 9 / 100000) \<and>
   \<not> overlaps (12 / 100000, 12 / 100000) (1 / 100000, 8 / 100000) \<and>
   union_max (present [Some (3 / 100000, 9 / 100000), Some (1 / 100000, 8 / 100000)]) =
     9 / 100000 \<and>
   fst (12 / 100000 :: rat, 12 / 100000 :: rat) >
     union_max (present [Some (3 / 100000, 9 / 100000), Some (1 / 100000, 8 / 100000)]) \<and>
   getProp stage4_sample ''novelty_flag'' =
     Str (flag_name (novelty (Some (12 / 100000, 12 / 100000)) (Some (3 / 100000, 9 / 100000))
       (Some (1 / 100000, 8 / 100000)))) \<and>
   aggregate (map normalize scenario2_records) scenario2_baseline =
     [\<lparr> row_material = Str ''PEO-LiTFSI'', row_property = Str ''ionic_conductivity'',
        row_category = Undefined, row_this_work = Some (12 / 1000, 12 / 1000),
        row_paper_cited_literature = Some (3 / 1000, 9 / 1000),
        row_external_baseline = Some (1 / 1000, 8 / 1000),
        row_novelty_flag = possible_outlier_high \<rparr>]"
proof (intro conjI)
  show "aggregate (map normalize scenario2_records) scenario2_baseline =
     [\<lparr> row_material = Str ''PEO-LiTFSI'', row_property = Str ''ionic_conductivity'',
        row_category = Undefined, row_this_work = Some (12 / 1000, 12 / 1000),
        row_paper_cited_literature = Some (3 / 1000, 9 / 1000),
        row_external_baseline = Some (1 / 1000, 8 / 1000),
        row_novelty_flag = possible_outlier_high \<rparr>]"
    by code_simp
qed (simp_all add: novelty_def present_def overlaps_def flag_name_def getProp_def
    stage4_sample_def)

subsection \<open>Normalization of a conductivity in S/cm\<close>

text \<open>
  C4. The rule for an ionic conductivity reported in S/cm is the factor 100 to S/m:
  normalization of a Record with that property and unit multiplies its \<open>value_min\<close>
  by 100 and sets \<open>unit_si\<close> to S/m. In particular the stage 2 sample of the workflow
  page, with \<open>value_min\<close> 1.2e-4 and \<open>unit_original\<close> S/cm, gets
  \<open>value_si_min\<close> 0.012 and \<open>unit_si\<close> S/m, which are the values of the
  stage 3 sample.
\<close>

theorem normalize_S_per_cm:
  "conversion_rule ''ionic_conductivity'' ''S/cm'' = Some (100, ''S/m'') \<and>
   value_si_min (normalize (r\<lparr> property := Str ''ionic_conductivity'',
                                unit_original := Str ''S/cm'', value_min := Num x \<rparr>)) =
     Num (x * 100) \<and>
   unit_si (normalize (r\<lparr> property := Str ''ionic_conductivity'',
                           unit_original := Str ''S/cm'', value_min := Num x \<rparr>)) = Str ''S/m'' \<and>
   value_min stage2_sample = Num (12 / 100000) \<and>
   unit_original stage2_sample = Str ''S/cm'' \<and>
   value_si_min (normalize stage2_sample) = Num (12 / 1000) \<and>
   unit_si (normalize stage2_sample) = Str ''S/m'' \<and>
   value_si_min (normalize stage2_sample) = value_si_min stage3_sample \<and>
   unit_si (normalize stage2_sample) = unit_si stage3_sample"
  by (simp add: conversion_rule_def base_rules_def normalize_def to_si_def stage2_sample_def
      stage3_sample_def missing_rec_def)

subsection \<open>Records with a hard fail\<close>

text \<open>
  C5, as amended. A Record whose \<open>hard_fail\<close> is non-empty is excluded from
  comparison aggregation: the comparison rows of a record set are those of the set without
  it. The export of the records is the filtered one, and the hard-fail-only filter never
  rejects such a Record: whenever the Record satisfies the selected origin, the selected
  category and the search query, it is in the filtered JSON export, and the filtered CSV
  export has its line, with the eleven cells of its fields, the last of them its
  \<open>hard_fail\<close> entries joined by \<open>; \<close> between double quotes.
\<close>

theorem hard_fail_excluded_but_exported:
  assumes "has_hard_fail r"
    and "rearranges srt"
    and "r \<in> set (records st)"
    and "passes_all_filters B (e\<lparr>hardFailOnly := False\<rparr>) r"
  shows "aggregate (xs @ r # ys) baseline = aggregate (xs @ ys) baseline \<and>
    recordMatchesFilters B (e\<lparr>hardFailOnly := True\<rparr>) r \<and>
    recordMatchesFilters B (e\<lparr>hardFailOnly := False\<rparr>) r \<and>
    (\<exists>lines. exportFilteredCsv B (fst (renderRecordsTable B srt e st)) =
               Inr (joinStrings [CHR 0x0A] (joinStrings '','' csvCols # lines)) \<and>
             csvRow B r \<in> set lines) \<and>
    Some r \<in> set (exportFilteredJson (fst (renderRecordsTable B srt e st))) \<and>
    last (csvFields r) = Str (joinStrings ''; '' (hardFailList r)) \<and>
    hardFailList r \<noteq> [] \<and>
    (\<exists>c hf. constraints r = Some c \<and> hard_fail c = Some hf \<and> hf \<noteq> [] \<and>
       (\<exists>lines. exportFilteredCsv B (fst (renderRecordsTable B srt e st)) =
          Inr (joinStrings [CHR 0x0A]
            (''material,category,property,value_min,value_max,unit_original,origin,confidence,page,citations,hard_fail'' #
             lines)) \<and>
          joinStrings '',''
            [csvCell B (material r), csvCell B (category r), csvCell B (property r),
             csvCell B (value_min r), csvCell B (value_max r), csvCell B (unit_original r),
             csvCell B (origin r), csvCell B (confidence r),
             csvCell B (case provenance r of
                          None \<Rightarrow> Str []
                        | Some p \<Rightarrow> nullish_else (page p) (Str [])),
             csvCell B (Str (joinStrings ''; ''
                          (case citations r of None \<Rightarrow> [] | Some cs \<Rightarrow> cs))),
             [CHR 0x22] @ doubleQuotes (joinStrings ''; '' hf) @ [CHR 0x22]] \<in> set lines))"
proof (intro conjI)
  show "aggregate (xs @ r # ys) baseline = aggregate (xs @ ys) baseline"
    using assms(1) by (rule aggregate_drop_hard_fail)
  have any: "recordMatchesFilters B (e\<lparr>hardFailOnly := b\<rparr>) r" for b
    using assms(1,4) by (simp add: recordMatchesFilters_iff passes_all_filters_def has_hard_fail_def)
  show "recordMatchesFilters B (e\<lparr>hardFailOnly := True\<rparr>) r"
    "recordMatchesFilters B (e\<lparr>hardFailOnly := False\<rparr>) r"
    by (rule any)+
  have m: "recordMatchesFilters B e r"
    using any [of "hardFailOnly e"] by simp
  from exportFilteredCsv_after_render [OF assms(2), of B e st] obtain lines where
    L: "exportFilteredCsv B (fst (renderRecordsTable B srt e st)) =
               Inr (joinStrings [CHR 0x0A] (joinStrings '','' csvCols # lines))"
    and M: "mset lines = mset (map (csvRow B) (filter (recordMatchesFilters B e) (records st)))"
    by blast
  from M have "set lines = csvRow B ` set (filter (recordMatchesFilters B e) (records st))"
    by (metis set_map set_mset_mset)
  with m assms(3) have in_lines: "csvRow B r \<in> set lines" by simp
  with L show "\<exists>lines. exportFilteredCsv B (fst (renderRecordsTable B srt e st)) =
               Inr (joinStrings [CHR 0x0A] (joinStrings '','' csvCols # lines)) \<and>
             csvRow B r \<in> set lines"
    by blast
  have in_range: "\<forall>v\<in>set (srt (buildRecordViews B e (records st))). idx v < length (records st)"
    using assms(2) idx_in_range by blast
  have "exportFilteredJson (fst (renderRecordsTable B srt e st)) =
          map (\<lambda>v. Some (records st ! idx v)) (srt (buildRecordViews B e (records st)))"
    using in_range by (simp add: exportFilteredJson_def)
  then have "mset (exportFilteredJson (fst (renderRecordsTable B srt e st))) =
               mset (map Some (filter (recordMatchesFilters B e) (records st)))"
    using mset_map_nth_idx [OF assms(2), of Some "records st" B e] by simp
  then have "set (exportFilteredJson (fst (renderRecordsTable B srt e st))) =
               Some ` set (filter (recordMatchesFilters B e) (records st))"
    by (metis set_map set_mset_mset)
  with m assms(3) show "Some r \<in> set (exportFilteredJson (fst (renderRecordsTable B srt e st)))"
    by simp
  show "last (csvFields r) = Str (joinStrings ''; '' (hardFailList r))"
    by (simp add: csvFields_def)
  show "hardFailList r \<noteq> []"
    using assms(1) by (simp add: has_hard_fail_def)
  from assms(1) obtain c hf where
    c: "constraints r = Some c" and hf: "hard_fail c = Some hf" and ne: "hf \<noteq> []"
    by (auto simp: has_hard_fail_def hardFailList_def hardFailOf_def split: option.splits)
  have hdr: "joinStrings '','' csvCols =
      ''material,category,property,value_min,value_max,unit_original,origin,confidence,page,citations,hard_fail''"
    by (simp add: csvCols_def)
  have page: "getPage r =
      (case provenance r of None \<Rightarrow> Str [] | Some p \<Rightarrow> nullish_else (page p) (Str []))"
    by (simp add: getPage_def nullish_else_def nullish_def split: option.splits)
  have hfl: "hardFailList r = hf"
    using c hf by (simp add: hardFailList_def hardFailOf_def)
  have last_cell: "csvCell B (Str (joinStrings ''; '' hf)) =
      [CHR 0x22] @ doubleQuotes (joinStrings ''; '' hf) @ [CHR 0x22]"
    by (simp add: csvCell_def nullish_else_def nullish_def)
  have row: "csvRow B r =
      joinStrings '',''
        [csvCell B (material r), csvCell B (category r), csvCell B (property r),
         csvCell B (value_min r), csvCell B (value_max r), csvCell B (unit_original r),
         csvCell B (origin r), csvCell B (confidence r),
         csvCell B (case provenance r of
                      None \<Rightarrow> Str []
                    | Some p \<Rightarrow> nullish_else (page p) (Str [])),
         csvCell B (Str (joinStrings ''; ''
                      (case citations r of None \<Rightarrow> [] | Some cs \<Rightarrow> cs))),
         [CHR 0x22] @ doubleQuotes (joinStrings ''; '' hf) @ [CHR 0x22]]"
    unfolding csvRow_cells page hfl citationsOf_def last_cell ..
  show "\<exists>c hf. constraints r = Some c \<and> hard_fail c = Some hf \<and> hf \<noteq> [] \<and>
       (\<exists>lines. exportFilteredCsv B (fst (renderRecordsTable B srt e st)) =
          Inr (joinStrings [CHR 0x0A]
            (''material,category,property,value_min,value_max,unit_original,origin,confidence,page,citations,hard_fail'' #
             lines)) \<and>
          joinStrings '',''
            [csvCell B (material r), csvCell B (category r), csvCell B (property r),
             csvCell B (value_min r), csvCell B (value_max r), csvCell B (unit_original r),
             csvCell B (origin r), csvCell B (confidence r),
             csvCell B (case provenance r of
                          None \<Rightarrow> Str []
                        | Some p \<Rightarrow> nullish_else (page p) (Str [])),
             csvCell B (Str (joinStrings ''; ''
                          (case citations r of None \<Rightarrow> [] | Some cs \<Rightarrow> cs))),
             [CHR 0x22] @ doubleQuotes (joinStrings ''; '' hf) @ [CHR 0x22]] \<in> set lines)"
    using c hf ne L in_lines unfolding hdr row by blast
qed

theorem hard_fail_excluded_but_exported_witness:
  "has_hard_fail cited_record \<and>
   aggregate example_records [] =
     [\<lparr> row_material = Str ''PEO-LiTFSI'', row_property = Str ''ionic_conductivity'',
        row_category = Undefined, row_this_work = Some (12 / 100000, 12 / 100000),
        row_paper_cited_literature = None, row_external_baseline = None,
        row_novelty_flag = no_baseline \<rparr>,
      \<lparr> row_material = Undefined, row_property = Undefined, row_category = Undefined,
        row_this_work = None, row_paper_cited_literature = None,
        row_external_baseline = None, row_novelty_flag = no_baseline \<rparr>] \<and>
   recordMatchesFilters example_runtime (no_filters\<lparr>hardFailOnly := True\<rparr>) cited_record \<and>
   Some cited_record \<in> set (exportFilteredJson
     (fst (renderRecordsTable example_runtime (\<lambda>xs. xs) no_filters example_state))) \<and>
   last (csvFields cited_record) = Str ''inverted_range''"
proof -
  have H1: "has_hard_fail cited_record"
    by (simp add: has_hard_fail_def hardFailList_def hardFailOf_def cited_record_def)
  have H3: "cited_record \<in> set (records example_state)"
    by (simp add: records_example_state example_records_def)
  have H4: "passes_all_filters example_runtime (no_filters\<lparr>hardFailOnly := False\<rparr>) cited_record"
    by (simp add: passes_all_filters_def no_filters_def example_runtime_def ascii_trim_def
        ascii_toLowerCase_def)
  note T = hard_fail_excluded_but_exported [OF H1 rearranges_id H3 H4,
      of "[this_work_record]" "[stage3_sample]" "[]"]
  have L: "joinStrings ''; '' (hardFailList cited_record) = ''inverted_range''"
    by (simp add: hardFailList_def hardFailOf_def cited_record_def)
  show ?thesis
    using T H1 by (simp add: example_records_def aggregate_without_cited L)
qed

text \<open>
  The claim as it was stated, that every Record with a non-empty \<open>hard_fail\<close> is in
  the export of the records, fails: under the filter controls of the stage 5 sample the
  cited Record of the examples, which is loaded and has a hard fail, is in neither the
  filtered JSON export nor the filtered CSV export, which hold the one Record of this
  work.
\<close>

theorem hard_fail_not_always_exported:
  "has_hard_fail cited_record \<and>
   cited_record \<in> set (records example_state) \<and>
   exportFilteredJson (fst (renderRecordsTable example_runtime rev stage5_els example_state)) =
     [Some this_work_record] \<and>
   Some cited_record \<notin>
     set (exportFilteredJson (fst (renderRecordsTable example_runtime rev stage5_els example_state))) \<and>
   exportFilteredCsv example_runtime
       (fst (renderRecordsTable example_runtime rev stage5_els example_state)) =
     Inr (joinStrings [CHR 0x0A]
       [''material,category,property,value_min,value_max,unit_original,origin,confidence,page,citations,hard_fail'',
        joinStrings '','' (map quoted
          [''PEO-LiTFSI'', [], ''ionic_conductivity'', ''0.00012'', [], ''S/cm'', ''this_work'',
           ''0.9'', ''5'', [], []])])"
proof -
  let ?st = "fst (renderRecordsTable example_runtime rev stage5_els example_state)"
  have H1: "has_hard_fail cited_record"
    by (simp add: has_hard_fail_def hardFailList_def hardFailOf_def cited_record_def)
  have H3: "cited_record \<in> set (records example_state)"
    by (simp add: records_example_state example_records_def)
  have V: "filteredRecordViews ?st = [mkView example_runtime 0 this_work_record]"
    by (simp add: records_example_state stage5_views)
  have R: "records ?st = [this_work_record, cited_record, stage3_sample]"
    by (simp add: records_example_state example_records_def)
  have J: "exportFilteredJson ?st = [Some this_work_record]"
    unfolding exportFilteredJson_def V R by simp
  have ne: "cited_record \<noteq> this_work_record"
    by (simp add: cited_record_def this_work_record_def stage2_sample_def missing_rec_def)
  have C: "exportFilteredCsv example_runtime ?st =
     Inr (joinStrings [CHR 0x0A]
       [''material,category,property,value_min,value_max,unit_original,origin,confidence,page,citations,hard_fail'',
        joinStrings '','' (map quoted
          [''PEO-LiTFSI'', [], ''ionic_conductivity'', ''0.00012'', [], ''S/cm'', ''this_work'',
           ''0.9'', ''5'', [], []])])"
    unfolding exportFilteredCsv_def V R
    by (simp add: csvCols_def csvRow_cells csvCell_def doubleQuotes_def quoted_def
        nullish_else_def nullish_def getPage_def citationsOf_def hardFailList_def hardFailOf_def
        example_defs)
  show ?thesis
    using H1 H3 J C ne by simp
qed

subsection \<open>The fields of the export object\<close>

text \<open>
  C6. The export object has exactly the top-level fields \<open>doc_id\<close>, \<open>records\<close>,
  \<open>comparison\<close>, \<open>tables\<close>, \<open>figures\<close> and \<open>logs\<close>, and the viewer, which
  reads these names in \<open>loadJsonObject\<close>, finds every one of them in a produced
  export: it raises no alert, none of its fallbacks for a missing field applies, and its
  state holds the records, comparison rows, tables, figure images and logs of the export
  and shows its \<open>doc_id\<close>.
\<close>

theorem export_fields_found:
  "map fst (export_json x) =
     [''doc_id'', ''records'', ''comparison'', ''tables'', ''figures'', ''logs''] \<and>
   (case loadJsonObject B srt e (Some (export_json x)) st of
      (alert, st', e', shown) \<Rightarrow>
        alert = None \<and>
        docIdOf (data st') = Str (export_doc_id x) \<and>
        records st' = export_records x \<and>
        comparison st' = export_comparison x \<and>
        tables st' = export_tables x \<and>
        state_figures st' = Some \<lparr> images = Some (export_images x) \<rparr> \<and>
        logs st' = export_logs x \<and>
        map_of shown ''doc_id'' = Some (Str (export_doc_id x)) \<and>
        map_of shown ''records (total)'' = Some (Num (of_nat (length (export_records x)))) \<and>
        map_of shown ''tables'' = Some (Num (of_nat (length (export_tables x)))) \<and>
        map_of shown ''figures'' = Some (Num (of_nat (length (export_images x)))))"
  by (simp add: export_json_def loadJsonObject_def renderRecordsTable_def statsItems_def Let_def
      arrRecords_def arrRows_def arrTables_def arrStrings_def objFigures_def docIdOf_def
      figureCount_def nullish_else_def nullish_def)

subsection \<open>Display of a value\<close>

text \<open>
  C7. A Record whose \<open>value_min\<close> is null (or missing) displays as the empty string.
  Otherwise, with \<open>value_min\<close> a number and \<open>value_max\<close> a number or null as the
  data model types them, a point value displays as the single formatted
  \<open>value_min\<close>, and a Record whose \<open>value_max\<close> differs from its \<open>value_min\<close>
  displays as the range: formatted \<open>value_min\<close>, an en dash, formatted
  \<open>value_max\<close>. The formatted value of a null \<open>value_min\<close> is itself empty, so the
  point-value clause holds for it too.
\<close>

theorem valueDisplay_point_or_range:
  "(nullish (value_min r) \<longrightarrow> valueDisplay B r = []) \<and>
   (point_value r \<longrightarrow> valueDisplay B r = fmtValue B (value_min r)) \<and>
   (\<forall>x y. value_min r = Num x \<and> value_max r = Num y \<and> \<not> point_value r \<longrightarrow>
      valueDisplay B r = fmtValue B (Num x) @ en_dash @ fmtValue B (Num y))"
  by (auto simp: valueDisplay_def point_value_def nullish_def fmtValue_def Let_def)

theorem valueDisplay_point_or_range_witness:
  "\<forall>B. valueDisplay B missing_rec = [] \<and>
     valueDisplay B stage2_sample = toExponential B (12 / 100000) 3 \<and>
     valueDisplay B (stage2_sample\<lparr>value_max := Num (12 / 100000)\<rparr>) =
       toExponential B (12 / 100000) 3 \<and>
     valueDisplay B (stage2_sample\<lparr>value_min := Num (3 / 100000), value_max := Num (9 / 100000)\<rparr>) =
       toExponential B (3 / 100000) 3 @ en_dash @ toExponential B (9 / 100000) 3"
proof (intro allI conjI)
  fix B
  show "valueDisplay B missing_rec = []"
    using valueDisplay_point_or_range [of missing_rec B]
    by (simp add: missing_rec_def nullish_def)
  show "valueDisplay B stage2_sample = toExponential B (12 / 100000) 3"
    using valueDisplay_point_or_range [of stage2_sample B]
    by (simp add: stage2_sample_def missing_rec_def point_value_def nullish_def fmtValue_def)
  show "valueDisplay B (stage2_sample\<lparr>value_max := Num (12 / 100000)\<rparr>) =
          toExponential B (12 / 100000) 3"
    using valueDisplay_point_or_range [of "stage2_sample\<lparr>value_max := Num (12 / 100000)\<rparr>" B]
    by (simp add: stage2_sample_def missing_rec_def point_value_def nullish_def fmtValue_def)
  show "valueDisplay B (stage2_sample\<lparr>value_min := Num (3 / 100000), value_max := Num (9 / 100000)\<rparr>) =
          toExponential B (3 / 100000) 3 @ en_dash @ toExponential B (9 / 100000) 3"
    using valueDisplay_point_or_range
      [of "stage2_sample\<lparr>value_min := Num (3 / 100000), value_max := Num (9 / 100000)\<rparr>" B]
    by (simp add: stage2_sample_def missing_rec_def point_value_def nullish_def fmtValue_def)
qed

subsection \<open>Converting to SI and back\<close>

text \<open>
  C8. For every supported pair of a unit and a property, that is, every pair with a
  conversion rule, and every original value, converting the value to SI with the factor
  of the pair and back with the inverse factor recovers the original value within
  \<open>1e-9\<close> relative tolerance. The factor of every rule is non-zero; in exact arithmetic
  the original value is recovered exactly, and in an arithmetic that rounds every result
  within \<open>1e-10\<close> of its magnitude the recovered value differs from the original by at
  most \<open>1e-9\<close> of its magnitude.
\<close>

theorem unit_round_trip:
  assumes "conversion_rule p u = Some (f, si)"
    and "rounds_within (1 / 10000000000) rnd"
  shows "f \<noteq> 0 \<and>
    from_si f (to_si f (Num x)) = Num x \<and>
    \<bar>from_si_rounded (\<lambda>y. y) f (to_si_rounded (\<lambda>y. y) f x) - x\<bar> \<le> \<bar>x\<bar> / 1000000000 \<and>
    \<bar>from_si_rounded rnd f (to_si_rounded rnd f x) - x\<bar> \<le> \<bar>x\<bar> / 1000000000"
proof -
  have f: "f \<noteq> 0" using assms(1) by (rule conversion_rule_nonzero)
  have "from_si f (to_si f (Num x)) = Num x"
    using f by (simp add: from_si_def to_si_def)
  moreover have "\<bar>from_si_rounded (\<lambda>y. y) f (to_si_rounded (\<lambda>y. y) f x) - x\<bar> \<le> \<bar>x\<bar> / 1000000000"
    using f by (simp add: from_si_rounded_def to_si_rounded_def)
  moreover have "\<bar>from_si_rounded rnd f (to_si_rounded rnd f x) - x\<bar> \<le> \<bar>x\<bar> / 1000000000"
    using f assms(2) by (rule rounded_round_trip)
  ultimately show ?thesis using f by blast
qed

theorem unit_round_trip_witness:
  "conversion_rule ''ionic_conductivity'' ''mS/cm'' = Some (1 / 10, ''S/m'') \<and>
   rounds_within (1 / 10000000000) example_rounding \<and>
   from_si (1 / 10) (to_si (1 / 10) (Num (12 / 100000))) = Num (12 / 100000) \<and>
   \<bar>from_si_rounded example_rounding (1 / 10)
       (to_si_rounded example_rounding (1 / 10) (12 / 100000)) - 12 / 100000\<bar>
     \<le> \<bar>12 / 100000\<bar> / 1000000000"
proof -
  have rule: "conversion_rule ''ionic_conductivity'' ''mS/cm'' = Some (1 / 10, ''S/m'')"
    by (simp add: conversion_rule_def base_rules_def prefix_table_def)
  have rnd: "rounds_within (1 / 10000000000) example_rounding"
    unfolding rounds_within_def example_rounding_def
  proof
    fix y :: rat
    have "\<bar>y + y / 100000000000 - y\<bar> = \<bar>y\<bar> / 100000000000"
      by simp
    also have "\<dots> \<le> 1 / 10000000000 * \<bar>y\<bar>"
      by simp
    finally show "\<bar>y + y / 100000000000 - y\<bar> \<le> 1 / 10000000000 * \<bar>y\<bar>" .
  qed
  from unit_round_trip [OF rule rnd, of "12 / 100000"] rule rnd show ?thesis
    by blast
qed

subsection \<open>Which records are shown and exported\<close>

text \<open>
  C9. For every loaded record set and every filter state, \<open>recordMatchesFilters\<close>
  accepts a Record exactly when it satisfies the four filters together. After
  \<open>renderRecordsTable\<close> the filtered views are the views of exactly the indices whose
  Record satisfies them, and so the filtered JSON export holds exactly those Records and
  the filtered CSV export one line for each of them after the header line (in the order of
  the current sort). For a selected origin or category that is not the empty string,
  reading a missing field as the empty string makes no difference: the filter holds
  exactly when the field is that string.
\<close>

theorem filtered_iff_all_four_filters:
  assumes "rearranges srt"
  shows "(recordMatchesFilters B e r \<longleftrightarrow> passes_all_filters B e r) \<and>
    (\<forall>i. (\<exists>v. v \<in> set (filteredRecordViews (fst (renderRecordsTable B srt e st))) \<and> idx v = i) \<longleftrightarrow>
          (i < length (records st) \<and> passes_all_filters B e (records st ! i))) \<and>
    mset (exportFilteredJson (fst (renderRecordsTable B srt e st))) =
      mset (map Some (filter (passes_all_filters B e) (records st))) \<and>
    (\<exists>lines. exportFilteredCsv B (fst (renderRecordsTable B srt e st)) =
               Inr (joinStrings [CHR 0x0A] (joinStrings '','' csvCols # lines)) \<and>
             mset lines = mset (map (csvRow B) (filter (passes_all_filters B e) (records st)))) \<and>
    (originSelect e \<noteq> [] \<longrightarrow>
       (or_else (origin r) (Str []) = Str (originSelect e) \<longleftrightarrow> origin r = Str (originSelect e))) \<and>
    (categorySelect e \<noteq> [] \<longrightarrow>
       (or_else (category r) (Str []) = Str (categorySelect e) \<longleftrightarrow>
        category r = Str (categorySelect e)))"
proof (intro conjI)
  let ?st = "fst (renderRecordsTable B srt e st)"
  let ?rs = "records st"
  have P: "recordMatchesFilters B e = passes_all_filters B e"
    by (rule ext) (rule recordMatchesFilters_iff)
  show "recordMatchesFilters B e r \<longleftrightarrow> passes_all_filters B e r"
    by (rule recordMatchesFilters_iff)
  show "\<forall>i. (\<exists>v. v \<in> set (filteredRecordViews ?st) \<and> idx v = i) \<longleftrightarrow>
          (i < length ?rs \<and> passes_all_filters B e (?rs ! i))"
  proof
    fix i
    have "(\<exists>v. v \<in> set (filteredRecordViews ?st) \<and> idx v = i) \<longleftrightarrow>
            i \<in> set (map idx (buildRecordViews B e ?rs))"
      using assms by (auto simp: rearranges_set)
    also have "\<dots> \<longleftrightarrow> i < length ?rs \<and> passes_all_filters B e (?rs ! i)"
      unfolding map_idx_buildRecordViews by (auto simp: recordMatchesFilters_iff)
    finally show "(\<exists>v. v \<in> set (filteredRecordViews ?st) \<and> idx v = i) \<longleftrightarrow>
            (i < length ?rs \<and> passes_all_filters B e (?rs ! i))" .
  qed
  have in_range: "\<forall>v\<in>set (srt (buildRecordViews B e ?rs)). idx v < length ?rs"
    using assms idx_in_range by blast
  have "exportFilteredJson ?st =
          map (\<lambda>v. Some (?rs ! idx v)) (srt (buildRecordViews B e ?rs))"
    using in_range by (simp add: exportFilteredJson_def)
  then show "mset (exportFilteredJson ?st) =
               mset (map Some (filter (passes_all_filters B e) ?rs))"
    using mset_map_nth_idx [OF assms, of Some ?rs B e] by (simp add: P)
  have "exportFilteredCsv B ?st =
          Inr (joinStrings [CHR 0x0A]
                 (joinStrings '','' csvCols #
                  map (\<lambda>v. csvRow B (?rs ! idx v)) (srt (buildRecordViews B e ?rs))))"
    using in_range by (simp add: exportFilteredCsv_def csvLines_eq)
  moreover have "mset (map (\<lambda>v. csvRow B (?rs ! idx v)) (srt (buildRecordViews B e ?rs))) =
                   mset (map (csvRow B) (filter (passes_all_filters B e) ?rs))"
    using mset_map_nth_idx [OF assms, of "csvRow B" ?rs B e] by (simp add: P)
  ultimately show "\<exists>lines. exportFilteredCsv B ?st =
               Inr (joinStrings [CHR 0x0A] (joinStrings '','' csvCols # lines)) \<and>
             mset lines = mset (map (csvRow B) (filter (passes_all_filters B e) ?rs))"
    by blast
  show "originSelect e \<noteq> [] \<longrightarrow>
       (or_else (origin r) (Str []) = Str (originSelect e) \<longleftrightarrow> origin r = Str (originSelect e))"
    by (cases "origin r") (auto simp: or_else_def)
  show "categorySelect e \<noteq> [] \<longrightarrow>
       (or_else (category r) (Str []) = Str (categorySelect e) \<longleftrightarrow>
        category r = Str (categorySelect e))"
    by (cases "category r") (auto simp: or_else_def)
qed

theorem filtered_iff_all_four_filters_witness:
  "rearranges (rev :: view list \<Rightarrow> view list) \<and>
   recordMatchesFilters example_runtime stage5_els this_work_record \<and>
   \<not> recordMatchesFilters example_runtime stage5_els cited_record \<and>
   \<not> recordMatchesFilters example_runtime stage5_els stage3_sample \<and>
   exportFilteredJson (fst (renderRecordsTable example_runtime rev stage5_els example_state)) =
     [Some this_work_record]"
proof -
  have E: "records example_state = [this_work_record, cited_record, stage3_sample]"
    by (simp add: example_state_def example_records_def)
  note T = filtered_iff_all_four_filters
    [OF rearranges_rev, of example_runtime stage5_els _ example_state]
  have "recordMatchesFilters example_runtime stage5_els this_work_record"
    using T [of this_work_record] stage5_this_work by blast
  moreover have "\<not> recordMatchesFilters example_runtime stage5_els cited_record"
    using T [of cited_record] stage5_cited by blast
  moreover have "\<not> recordMatchesFilters example_runtime stage5_els stage3_sample"
    using T [of stage3_sample] stage5_stage3 by blast
  moreover have "exportFilteredJson
      (fst (renderRecordsTable example_runtime rev stage5_els example_state)) =
     [Some this_work_record]"
    using T [of this_work_record]
    by (simp add: E stage5_this_work stage5_cited stage5_stage3)
  ultimately show ?thesis
    using rearranges_rev by blast
qed

subsection \<open>The statistics of the records table\<close>

text \<open>
  C10. For every loaded record set in which the origin of each Record is one of
  \<open>this_work\<close>, \<open>literature\<close>, \<open>mixed\<close>, \<open>unclear\<close>, or absent (any
  falsy value, counted as \<open>unclear\<close>), the four per-origin counts that
  \<open>renderRecordsTable\<close> shows sum to the total number of loaded records, which it
  shows too. The filter controls do not change these entries: they change only the
  filtered count, the number of views built under them.
\<close>

theorem origin_counts_sum_to_total:
  assumes "\<forall>r\<in>set (records st). \<not> truthy (origin r) \<or>
             origin r \<in> {Str ''this_work'', Str ''literature'', Str ''mixed'', Str ''unclear''}"
  shows "\<exists>a b c d.
     map_of (snd (renderRecordsTable B srt e st)) ''this_work'' = Some (Num (of_nat a)) \<and>
     map_of (snd (renderRecordsTable B srt e st)) ''literature'' = Some (Num (of_nat b)) \<and>
     map_of (snd (renderRecordsTable B srt e st)) ''mixed'' = Some (Num (of_nat c)) \<and>
     map_of (snd (renderRecordsTable B srt e st)) ''unclear'' = Some (Num (of_nat d)) \<and>
     a + b + c + d = length (records st) \<and>
     map_of (snd (renderRecordsTable B srt e st)) ''records (total)'' =
       Some (Num (of_nat (length (records st)))) \<and>
     map_of (snd (renderRecordsTable B srt e st)) ''records (filtered)'' =
       Some (Num (of_nat (length (srt (buildRecordViews B e (records st)))))) \<and>
     (\<forall>e'. \<forall>k\<in>{''this_work'', ''literature'', ''mixed'', ''unclear'', ''records (total)''}.
        map_of (snd (renderRecordsTable B srt e' st)) k =
        map_of (snd (renderRecordsTable B srt e st)) k)"
proof -
  let ?m = "countByOrigin B (records st) Map.empty"
  have keys: "\<forall>r\<in>set (records st). toStr B (or_else (origin r) (Str ''unclear'')) \<in>
           set [''this_work'', ''literature'', ''mixed'', ''unclear'']"
    using assms origin_key_cases by blast
  have "(\<Sum>k\<leftarrow>[''this_work'', ''literature'', ''mixed'', ''unclear'']. countOf ?m k) =
          (\<Sum>k\<leftarrow>[''this_work'', ''literature'', ''mixed'', ''unclear'']. countOf Map.empty k) +
          length (records st)"
    by (rule countByOrigin_sum [OF _ keys]) simp
  then have total: "countOf ?m ''this_work'' + countOf ?m ''literature'' + countOf ?m ''mixed'' +
      countOf ?m ''unclear'' = length (records st)"
    by (simp add: countOf_def)
  have items: "snd (renderRecordsTable B srt e' st) =
      statsItems B (st\<lparr>filteredRecordViews := srt (buildRecordViews B e' (records st))\<rparr>)" for e'
    by (simp add: renderRecordsTable_def Let_def)
  show ?thesis
    apply (rule exI [of _ "countOf ?m ''this_work''"])
    apply (rule exI [of _ "countOf ?m ''literature''"])
    apply (rule exI [of _ "countOf ?m ''mixed''"])
    apply (rule exI [of _ "countOf ?m ''unclear''"])
    using total by (simp add: items statsItems_def Let_def)
qed

theorem origin_counts_sum_to_total_witness:
  "map (map_of (snd (renderRecordsTable example_runtime (\<lambda>xs. xs) stage5_els example_state)))
     [''this_work'', ''literature'', ''mixed'', ''unclear'', ''records (total)'',
      ''records (filtered)''] =
     [Some (Num 1), Some (Num 1), Some (Num 0), Some (Num 1), Some (Num 3), Some (Num 1)]"
proof -
  let ?items = "snd (renderRecordsTable example_runtime (\<lambda>xs. xs) stage5_els example_state)"
  have H: "\<forall>r\<in>set (records example_state). \<not> truthy (origin r) \<or>
             origin r \<in> {Str ''this_work'', Str ''literature'', Str ''mixed'', Str ''unclear''}"
    by (simp add: example_state_def example_records_def this_work_record_def cited_record_def
        stage2_sample_def stage3_sample_def missing_rec_def)
  from origin_counts_sum_to_total [OF H, of example_runtime "\<lambda>xs. xs" stage5_els]
  obtain a b c d where
    tw: "map_of ?items ''this_work'' = Some (Num (of_nat a))" and
    lit: "map_of ?items ''literature'' = Some (Num (of_nat b))" and
    mix: "map_of ?items ''mixed'' = Some (Num (of_nat c))" and
    unc: "map_of ?items ''unclear'' = Some (Num (of_nat d))" and
    total: "map_of ?items ''records (total)'' =
       Some (Num (of_nat (length (records example_state))))" and
    filtered: "map_of ?items ''records (filtered)'' =
       Some (Num (of_nat (length (buildRecordViews example_runtime stage5_els
         (records example_state)))))"
    by blast
  have items: "?items =
      statsItems example_runtime (example_state\<lparr>filteredRecordViews :=
        buildRecordViews example_runtime stage5_els (records example_state)\<rparr>)"
    by (simp add: renderRecordsTable_def Let_def)
  have ev: "map (map_of ?items) [''this_work'', ''literature'', ''mixed'', ''unclear''] =
      [Some (Num 1), Some (Num 1), Some (Num 0), Some (Num 1)]"
    using example_counts
    by (simp add: items statsItems_def Let_def records_example_state)
  show ?thesis
    using ev total filtered
    by (simp add: records_example_state stage5_views) (simp add: example_records_def)
qed

end
